theory Spec2Isabelle
  imports Main "HOL-Library.Sublist" "HOL-Library.AList"
begin

section \<open>Python values shared by the modules\<close>

text \<open>
  A Python \<^verbatim>\<open>dict\<close> is an association list in insertion order: \<^verbatim>\<open>d.get(k)\<close> is
  \<open>map_of d k\<close>, \<^verbatim>\<open>d[k] = v\<close> is \<open>AList.update k v d\<close>, \<^verbatim>\<open>for k in d\<close> walks the list
  and \<^verbatim>\<open>d.copy()\<close> is the list itself. Python's \<^verbatim>\<open>a in b\<close> on strings is \<open>sublist a b\<close>
  and \<^verbatim>\<open>s.startswith(t)\<close> is \<open>prefix t s\<close>.

  Every exception the browser driver can raise from a call is the one value \<open>DriverError\<close>:
  the code only ever catches it with a bare \<^verbatim>\<open>except\<close> or \<^verbatim>\<open>except Exception\<close>.
\<close>

type_synonym ('k, 'v) dict = "('k \<times> 'v) list"

datatype error = DriverError

text \<open>
  The Playwright objects the code talks to. An element found inside a container offers
  \<^verbatim>\<open>inner_text()\<close> and \<^verbatim>\<open>get_attribute(name)\<close>; a container offers \<^verbatim>\<open>query_selector(sel)\<close>
  (the first matching descendant or \<^verbatim>\<open>None\<close>); the page offers
  \<^verbatim>\<open>query_selector_all(sel)\<close> (the matching elements in document order) and
  \<^verbatim>\<open>evaluate(js)\<close>. Each call may raise. \<open>netloc\<close> is \<^verbatim>\<open>urlparse(page.url).netloc\<close>.
\<close>

record element =
  inner_text :: "error + string"
  get_attribute :: "string \<Rightarrow> error + string option"

record container =
  query_selector :: "string \<Rightarrow> error + element option"

record page =
  netloc :: string
  query_selector_all :: "string \<Rightarrow> error + container list"
  evaluate :: "string \<Rightarrow> error + string"

section \<open>agent/auto\_detect.py\<close>

subsection \<open>The template registry\<close>

definition SITE_TEMPLATES :: "(string, (string, string) dict) dict" where
  \<open>SITE_TEMPLATES =
    [(''wikipedia.org'',
        [(''container'', ''.mw-parser-output > p, .mw-parser-output > h2, .mw-parser-output > h3''),
         (''title'', ''#firstHeading, h1''),
         (''content'', ''p''),
         (''link'', ''a[href]'')]),
     (''medium.com'',
        [(''container'', ''article''),
         (''title'', ''h1''),
         (''author'', ''[rel="author"], [data-testid="authorName"]''),
         (''date'', ''time''),
         (''content'', ''article p''),
         (''link'', ''a[href]'')]),
     (''dev.to'',
        [(''container'', ''.crayons-story''),
         (''title'', ''h2, h3''),
         (''author'', ''.crayons-story__secondary .crayons-link''),
         (''date'', ''time''),
         (''content'', ''.crayons-story__body''),
         (''link'', ''a[href]'')]),
     (''reddit.com'',
        [(''container'', ''[data-testid="post-container"], .Post''),
         (''title'', ''h3, [data-click-id="text"]''),
         (''author'', ''[data-testid="post_author_link"]''),
         (''date'', ''time''),
         (''content'', ''[data-test-id="post-content"]''),
         (''link'', ''a[href]'')]),
     (''stackoverflow.com'',
        [(''container'', ''.question-summary, .answer''),
         (''title'', ''.question-hyperlink, h1''),
         (''author'', ''.user-details a''),
         (''date'', ''.relativetime''),
         (''content'', ''.s-prose p''),
         (''link'', ''a.question-hyperlink'')]),
     (''github.com'',
        [(''container'', ''article.Box-row, .repo-list li''),
         (''title'', ''h3, h1''),
         (''author'', ''[itemprop="author"]''),
         (''date'', ''relative-time''),
         (''content'', ''p.col-9''),
         (''link'', ''a[href]'')]),
     (''news.ycombinator.com'',
        [(''container'', ''.athing, tr.athing''),
         (''title'', ''.titleline > a''),
         (''author'', ''.hnuser''),
         (''date'', ''.age''),
         (''content'', ''.comment''),
         (''link'', ''.titleline > a'')]),
     (''amazon.com'',
        [(''container'', ''[data-component-type="s-search-result"], .s-result-item''),
         (''title'', ''h2 a, .s-title-instructions-style''),
         (''author'', ''.a-size-base-plus''),
         (''date'', ''''),
         (''content'', ''.a-size-base-plus''),
         (''link'', ''h2 a'')]),
     (''mercadolivre.com.br'',
        [(''container'', ''.ui-search-result''),
         (''title'', ''.ui-search-item__title''),
         (''author'', ''.ui-search-official-store-label''),
         (''date'', ''''),
         (''content'', ''.ui-search-item__group__element''),
         (''link'', ''.ui-search-link'')]),
     (''g1.globo.com'',
        [(''container'', ''.feed-post-body, .widget--info''),
         (''title'', ''.feed-post-link, h1''),
         (''author'', ''.feed-post-metadata-section''),
         (''date'', ''.feed-post-datetime''),
         (''content'', ''.feed-post-body-resumo, p''),
         (''link'', ''.feed-post-link'')]),
     (''uol.com.br'',
        [(''container'', ''.thumbnails-item, article''),
         (''title'', ''.thumb-title, h1''),
         (''author'', ''.author''),
         (''date'', ''.time''),
         (''content'', ''p''),
         (''link'', ''a[href]'')]),
     (''folha.uol.com.br'',
        [(''container'', ''.c-headline, article''),
         (''title'', ''.c-headline__title, h1''),
         (''author'', ''.c-headline__byline''),
         (''date'', ''time''),
         (''content'', ''.c-news__body p''),
         (''link'', ''.c-headline__url'')]),
     (''techcrunch.com'',
        [(''container'', ''.post-block, article''),
         (''title'', ''.post-block__title, h1''),
         (''author'', ''.river-byline__authors''),
         (''date'', ''time''),
         (''content'', ''.article-content p''),
         (''link'', ''.post-block__title__link'')]),
     (''theverge.com'',
        [(''container'', ''.duet--content-cards--content-card, article''),
         (''title'', ''h2, h1''),
         (''author'', ''.duet--authors--name''),
         (''date'', ''time''),
         (''content'', ''.duet--article--article-body-component p''),
         (''link'', ''a[href]'')])]\<close>

subsection \<open>AutoDetector\<close>

text \<open>
  \<^verbatim>\<open>_extract_domain\<close>: the network location of the page URL, without a leading
  \<^verbatim>\<open>www.\<close>. The standard library's \<^verbatim>\<open>urlparse\<close> is not modelled; its result is the
  \<open>netloc\<close> field of the page.
\<close>

definition extract_domain :: "string \<Rightarrow> string" where
  "extract_domain nl = (if prefix ''www.'' nl then drop 4 nl else nl)"

definition domain :: "page \<Rightarrow> string" where
  "domain p = extract_domain (netloc p)"

text \<open>
  \<^verbatim>\<open>_try_template\<close>, over any registry: the exact lookup, then the loop over the keys in
  the registry's order.
\<close>

fun partial_match :: "(string, 'v) dict \<Rightarrow> string \<Rightarrow> 'v option" where
  "partial_match [] d = None"
| "partial_match ((template_domain, t) # rest) d =
     (if sublist template_domain d then Some t else partial_match rest d)"

definition try_template_in :: "(string, 'v) dict \<Rightarrow> string \<Rightarrow> 'v option" where
  "try_template_in reg d =
     (case map_of reg d of
        Some t \<Rightarrow> Some t
      | None \<Rightarrow> partial_match reg d)"

definition try_template :: "string \<Rightarrow> (string, string) dict option" where
  "try_template d = try_template_in SITE_TEMPLATES d"

text \<open>\<^verbatim>\<open>len(self.page.query_selector_all(selector))\<close>, which raises when the query does.\<close>

definition probe :: "page \<Rightarrow> string \<Rightarrow> error + nat" where
  "probe p selector =
     (case query_selector_all p selector of
        Inl e \<Rightarrow> Inl e
      | Inr els \<Rightarrow> Inr (length els))"

text \<open>
  The two shapes of candidate loop in the detector. \<open>scan\<close> is the loop written without
  \<^verbatim>\<open>try\<close> (over \<^verbatim>\<open>semantic_tags\<close> and over \<^verbatim>\<open>headings\<close>): an exception from the query leaves
  the loop and the method. \<open>scan_try\<close> is the loop whose body is wrapped in
  \<^verbatim>\<open>try: ... except: continue\<close>. Both return the first accepted candidate, or \<open>None\<close>
  when the loop runs to its end.
\<close>

fun scan :: "(nat \<Rightarrow> bool) \<Rightarrow> page \<Rightarrow> string list \<Rightarrow> error + string option" where
  "scan accept p [] = Inr None"
| "scan accept p (c # cs) =
     (case probe p c of
        Inl e \<Rightarrow> Inl e
      | Inr count \<Rightarrow> if accept count then Inr (Some c) else scan accept p cs)"

fun scan_try :: "(nat \<Rightarrow> bool) \<Rightarrow> page \<Rightarrow> string list \<Rightarrow> string option" where
  "scan_try accept p [] = None"
| "scan_try accept p (c # cs) =
     (case probe p c of
        Inl e \<Rightarrow> scan_try accept p cs
      | Inr count \<Rightarrow> if accept count then Some c else scan_try accept p cs)"

definition in_band :: "nat \<Rightarrow> bool" where
  "in_band count \<longleftrightarrow> 3 \<le> count \<and> count \<le> 100"

definition positive :: "nat \<Rightarrow> bool" where
  "positive count \<longleftrightarrow> count > 0"

definition semantic_tags :: "string list" where
  \<open>semantic_tags = [''article'', ''section[class*="post"]'', ''section[class*="item"]'']\<close>

definition common_classes :: "string list" where
  \<open>common_classes =
     [''.post'', ''.card'', ''.item'', ''.entry'', ''.article-item'',
      ''[class*="post"]'', ''[class*="card"]'', ''[class*="item"]'',
      ''[class*="story"]'', ''[class*="content-item"]'']\<close>

definition container_fallback :: string where
  \<open>container_fallback = ''article, .post, .card, .item, .entry, section[class*="post"]''\<close>

definition detect_container :: "page \<Rightarrow> error + string" where
  "detect_container p =
     (case scan in_band p semantic_tags of
        Inl e \<Rightarrow> Inl e
      | Inr (Some tag) \<Rightarrow> Inr tag
      | Inr None \<Rightarrow>
          (case scan_try in_band p common_classes of
             Some selector \<Rightarrow> Inr selector
           | None \<Rightarrow> Inr container_fallback))"

definition headings :: "string list" where
  "headings = [''h1'', ''h2'', ''h3'']"

definition title_classes :: "string list" where
  \<open>title_classes = [''.title'', ''.headline'', ''[class*="title"]'', ''[class*="heading"]'']\<close>

definition detect_title :: "page \<Rightarrow> error + string" where
  "detect_title p =
     (case scan positive p headings of
        Inl e \<Rightarrow> Inl e
      | Inr (Some heading) \<Rightarrow> Inr heading
      | Inr None \<Rightarrow>
          (case scan_try positive p title_classes of
             Some selector \<Rightarrow> Inr selector
           | None \<Rightarrow> Inr ''h1, h2, h3, .title, .headline''))"

definition author_selectors :: "string list" where
  \<open>author_selectors =
     [''.author'', ''.byline'', ''[class*="author"]'',
      ''[rel="author"]'', ''[itemprop="author"]'',
      ''.meta-author'', ''.writer'']\<close>

definition detect_author :: "page \<Rightarrow> string" where
  \<open>detect_author p =
     (case scan_try positive p author_selectors of
        Some selector \<Rightarrow> selector
      | None \<Rightarrow> ''.author, .byline, [rel="author"]'')\<close>

definition date_selectors :: "string list" where
  \<open>date_selectors =
     [''time'', ''[datetime]'', ''.date'', ''.published'',
      ''[class*="date"]'', ''[class*="time"]'',
      ''.meta-date'', ''.timestamp'']\<close>

definition detect_date :: "page \<Rightarrow> string" where
  "detect_date p =
     (case scan_try positive p date_selectors of
        Some selector \<Rightarrow> selector
      | None \<Rightarrow> ''time, .date, .published'')"

definition content_selectors :: "string list" where
  \<open>content_selectors =
     [''.content'', ''.description'', ''.summary'', ''.excerpt'',
      ''[class*="content"]'', ''[class*="description"]'',
      ''p'', ''.text'']\<close>

definition detect_content :: "page \<Rightarrow> string" where
  "detect_content p =
     (case scan_try positive p content_selectors of
        Some selector \<Rightarrow> selector
      | None \<Rightarrow> ''.content, .description, .summary, p'')"

text \<open>
  \<^verbatim>\<open>_heuristic_detection\<close>: the dict literal, then the five assignments in the source's
  order. The first exception ends the method.
\<close>

definition initial_selectors :: "(string, string) dict" where
  "initial_selectors =
     [(''container'', ''''), (''title'', ''''), (''author'', ''''),
      (''date'', ''''), (''content'', ''''), (''link'', ''a[href]'')]"

definition heuristic_detection :: "page \<Rightarrow> error + (string, string) dict" where
  "heuristic_detection p =
     (case detect_container p of
        Inl e \<Rightarrow> Inl e
      | Inr c \<Rightarrow>
          (let selectors = AList.update ''container'' c initial_selectors in
           case detect_title p of
             Inl e \<Rightarrow> Inl e
           | Inr t \<Rightarrow>
               (let selectors = AList.update ''title'' t selectors;
                    selectors = AList.update ''author'' (detect_author p) selectors;
                    selectors = AList.update ''date'' (detect_date p) selectors;
                    selectors = AList.update ''content'' (detect_content p) selectors
                in Inr selectors)))"

text \<open>
  \<^verbatim>\<open>detect\<close>: \<^verbatim>\<open>if template:\<close> is the truth value of a dict, false for \<^verbatim>\<open>None\<close> and for the
  empty dict.
\<close>

definition detect :: "page \<Rightarrow> error + (string, string) dict" where
  "detect p =
     (case try_template (domain p) of
        Some template \<Rightarrow> if template \<noteq> [] then Inr template else heuristic_detection p
      | None \<Rightarrow> heuristic_detection p)"

section \<open>agent/scraper.py\<close>

text \<open>
  \<^verbatim>\<open>d[k]\<close> raises \<^verbatim>\<open>KeyError\<close> on a missing key; sequencing of calls that may raise is
  \<open>bind_err\<close>: the first exception ends the sequence.
\<close>

datatype scrape_error = KeyError | Raised error

definition subscript :: "(string, 'v) dict \<Rightarrow> string \<Rightarrow> scrape_error + 'v" where
  "subscript d k = (case map_of d k of None \<Rightarrow> Inl KeyError | Some v \<Rightarrow> Inr v)"

definition driver :: "error + 'a \<Rightarrow> scrape_error + 'a" where
  "driver r = (case r of Inl e \<Rightarrow> Inl (Raised e) | Inr x \<Rightarrow> Inr x)"

definition bind_err :: "'e + 'a \<Rightarrow> ('a \<Rightarrow> 'e + 'b) \<Rightarrow> 'e + 'b" where
  "bind_err m f = (case m of Inl e \<Rightarrow> Inl e | Inr x \<Rightarrow> f x)"

text \<open>
  \<^verbatim>\<open>str.strip()\<close>: leading and trailing whitespace removed. The characters of this module
  are the code points below 256, and \<open>is_space\<close> lists those among them for which
  \<^verbatim>\<open>str.isspace\<close> holds.
\<close>

definition is_space :: "char \<Rightarrow> bool" where
  "is_space ch \<longleftrightarrow>
     ch \<in> {CHR 0x09, CHR 0x0A, CHR 0x0B, CHR 0x0C, CHR 0x0D,
           CHR 0x1C, CHR 0x1D, CHR 0x1E, CHR 0x1F, CHR 0x20, CHR 0x85, CHR 0xA0}"

definition strip :: "string \<Rightarrow> string" where
  "strip s = rev (dropWhile is_space (rev (dropWhile is_space s)))"

text \<open>The class attribute \<^verbatim>\<open>WebScraper.SELECTORS\<close>; callers may overwrite its entries.\<close>

definition SELECTORS :: "(string, string) dict" where
  \<open>SELECTORS =
     [(''container'', ''article, .post, .card, .item, .news-item''),
      (''title'', ''h1, h2, h3, .title, .headline''),
      (''author'', ''.author, .byline, [rel="author"]''),
      (''date'', ''time, .date, .published''),
      (''content'', ''.content, .description, .summary, p''),
      (''link'', ''a[href]'')]\<close>

text \<open>The truth value of \<^verbatim>\<open>d.get(k)\<close> for a dict of strings, and of an optional string.\<close>

definition truthy :: "string option \<Rightarrow> bool" where
  "truthy v = (case v of None \<Rightarrow> False | Some s \<Rightarrow> s \<noteq> [])"

text \<open>
  \<^verbatim>\<open>_extract_item_data\<close>. The title, author and content blocks have one shape
  (\<open>extract_text\<close>); the date and link blocks follow. No block has a handler of its own:
  an exception in any of them leaves the method.
\<close>

definition extract_text ::
  "(string, string) dict \<Rightarrow> container \<Rightarrow> string \<Rightarrow> (string, string) dict
     \<Rightarrow> scrape_error + (string, string) dict" where
  "extract_text sels c key item =
     bind_err (subscript sels key) (\<lambda>selector.
     bind_err (driver (query_selector c selector)) (\<lambda>el.
       case el of
         None \<Rightarrow> Inr item
       | Some el \<Rightarrow>
           bind_err (driver (inner_text el)) (\<lambda>text.
             Inr (AList.update key (strip text) item))))"

definition extract_date ::
  "(string, string) dict \<Rightarrow> container \<Rightarrow> (string, string) dict
     \<Rightarrow> scrape_error + (string, string) dict" where
  "extract_date sels c item =
     bind_err (subscript sels ''date'') (\<lambda>selector.
     bind_err (driver (query_selector c selector)) (\<lambda>date_el.
       case date_el of
         None \<Rightarrow> Inr item
       | Some date_el \<Rightarrow>
           bind_err (driver (get_attribute date_el ''datetime'')) (\<lambda>date_value.
             if truthy date_value
             then Inr (AList.update ''date'' (case date_value of Some v \<Rightarrow> v | None \<Rightarrow> []) item)
             else bind_err (driver (inner_text date_el)) (\<lambda>text.
                    Inr (AList.update ''date'' (strip text) item)))))"

definition url_script :: "string \<Rightarrow> string" where
  "url_script href =
     ''new URL('' @ [CHR 0x27] @ href @ [CHR 0x27] @ '', window.location.href).href''"

definition extract_link ::
  "(string, string) dict \<Rightarrow> page \<Rightarrow> container \<Rightarrow> (string, string) dict
     \<Rightarrow> scrape_error + (string, string) dict" where
  "extract_link sels p c item =
     bind_err (subscript sels ''link'') (\<lambda>selector.
     bind_err (driver (query_selector c selector)) (\<lambda>link_el.
       case link_el of
         None \<Rightarrow> Inr item
       | Some link_el \<Rightarrow>
           bind_err (driver (get_attribute link_el ''href'')) (\<lambda>href.
             case href of
               None \<Rightarrow> Inr item
             | Some h \<Rightarrow>
                 if h \<noteq> []
                 then bind_err (driver (evaluate p (url_script h))) (\<lambda>url.
                        Inr (AList.update ''link'' url item))
                 else Inr item)))"

definition extract_item_data ::
  "(string, string) dict \<Rightarrow> page \<Rightarrow> container \<Rightarrow> scrape_error + (string, string) dict" where
  "extract_item_data sels p c =
     bind_err (extract_text sels c ''title'' []) (\<lambda>item.
     bind_err (extract_text sels c ''author'' item) (\<lambda>item.
     bind_err (extract_date sels c item) (\<lambda>item.
     bind_err (extract_text sels c ''content'' item) (\<lambda>item.
     extract_link sels p c item))))"

text \<open>
  The loop of \<^verbatim>\<open>extract_data\<close> over the containers: the body is inside
  \<^verbatim>\<open>try: ... except Exception: continue\<close>, and an item is appended only when its title or
  its link is true.
\<close>

fun extract_loop ::
  "(string, string) dict \<Rightarrow> page \<Rightarrow> container list \<Rightarrow> (string, string) dict list" where
  "extract_loop sels p [] = []"
| "extract_loop sels p (c # cs) =
     (case extract_item_data sels p c of
        Inl e \<Rightarrow> extract_loop sels p cs
      | Inr item \<Rightarrow>
          if truthy (map_of item ''title'') \<or> truthy (map_of item ''link'')
          then item # extract_loop sels p cs
          else extract_loop sels p cs)"

text \<open>\<^verbatim>\<open>xs[:n]\<close> for a Python int \<open>n\<close>: a negative \<open>n\<close> counts from the end.\<close>

definition slice_to :: "'a list \<Rightarrow> int \<Rightarrow> 'a list" where
  "slice_to xs n = (if 0 \<le> n then take (nat n) xs else take (length xs - nat (- n)) xs)"

text \<open>
  \<^verbatim>\<open>extract_data\<close>: \<^verbatim>\<open>if max_items:\<close> is false for \<^verbatim>\<open>None\<close> and for \<open>0\<close>. The outer handler
  logs and returns the data gathered so far, which is empty when the query itself raises.
\<close>

definition extract_data ::
  "(string, string) dict \<Rightarrow> page \<Rightarrow> int option \<Rightarrow> (string, string) dict list" where
  "extract_data sels p max_items =
     (case bind_err (subscript sels ''container'') (\<lambda>selector.
             driver (query_selector_all p selector)) of
        Inl e \<Rightarrow> []
      | Inr containers \<Rightarrow>
          (let containers =
                 (case max_items of
                    None \<Rightarrow> containers
                  | Some n \<Rightarrow> if n \<noteq> 0 then slice_to containers n else containers)
           in extract_loop sels p containers))"

section \<open>agent/storage.py\<close>

text \<open>
  What \<^verbatim>\<open>save\<close> does with a value depends on how the \<^verbatim>\<open>sqlite3\<close> module binds it, so the
  strings of this module are modelled as Python has them: a \<^verbatim>\<open>str\<close> is a sequence of code
  points, numbers below \<open>0x110000\<close>. The code points from \<open>0xD800\<close> to \<open>0xDFFF\<close> are the
  surrogates; a string that holds one has no UTF-8 encoding.

  The values of a record are \<^verbatim>\<open>None\<close>, a \<^verbatim>\<open>str\<close>, or an object of a type for which
  \<^verbatim>\<open>sqlite3\<close> has no adapter (a list, a dict, a set). \<^verbatim>\<open>save\<close> declares its argument as
  \<^verbatim>\<open>List[Dict[str, str]]\<close>; numbers and bytes, which that type excludes and which \<^verbatim>\<open>sqlite3\<close>
  binds with conversions of its own, are not values of the model, and nothing below speaks
  of them.
\<close>

type_synonym pystr = "nat list"

definition surrogate :: "nat \<Rightarrow> bool" where
  "surrogate c \<longleftrightarrow> 0xD800 \<le> c \<and> c \<le> 0xDFFF"

datatype pyval = PyNone | PyStr pystr | PyObject

text \<open>
  The exceptions \<^verbatim>\<open>cursor.execute\<close> can raise here. \<^verbatim>\<open>save\<close> tells \<^verbatim>\<open>sqlite3.IntegrityError\<close>
  from every other exception and nothing more.
\<close>

datatype insert_error = IntegrityError | UnicodeEncodeError | ProgrammingError

text \<open>
  The table \<^verbatim>\<open>scraped_data\<close>, its rows in the order of their insertion. \<open>seq\<close> is the
  table's entry in \<^verbatim>\<open>sqlite_sequence\<close>, the largest id \<^verbatim>\<open>AUTOINCREMENT\<close> has handed out;
  \<open>scraped_at\<close> is the database clock at the insert. Limits of the database itself (the
  length of a value, the size of the file) are outside the model.
\<close>

record row =
  row_id :: nat
  title :: "pystr option"
  author :: "pystr option"
  date :: "pystr option"
  link :: "pystr option"
  content :: "pystr option"
  scraped_at :: nat

record store =
  rows :: "row list"
  seq :: nat

definition empty_store :: store where
  "empty_store = \<lparr>rows = [], seq = 0\<rparr>"

text \<open>\<^verbatim>\<open>item.get(k)\<close>: \<^verbatim>\<open>None\<close> for a missing key.\<close>

definition dict_get :: "(string, pyval) dict \<Rightarrow> string \<Rightarrow> pyval" where
  "dict_get item k = (case map_of item k of None \<Rightarrow> PyNone | Some v \<Rightarrow> v)"

text \<open>
  Binding one parameter: \<^verbatim>\<open>None\<close> becomes \<^verbatim>\<open>NULL\<close>, a string becomes the text of its UTF-8
  encoding, which a string with a surrogate does not have (\<^verbatim>\<open>UnicodeEncodeError\<close>); an
  object without an adapter is refused (\<^verbatim>\<open>ProgrammingError\<close>, \<^verbatim>\<open>InterfaceError\<close> in older
  versions of Python).
\<close>

fun adapt :: "pyval \<Rightarrow> insert_error + pystr option" where
  "adapt PyNone = Inr None"
| "adapt (PyStr s) = (if list_ex surrogate s then Inl UnicodeEncodeError else Inr (Some s))"
| "adapt PyObject = Inl ProgrammingError"

text \<open>
  \<^verbatim>\<open>link TEXT UNIQUE\<close>: two rows conflict when their links are equal and not \<^verbatim>\<open>NULL\<close>.
\<close>

definition link_conflict :: "store \<Rightarrow> pystr option \<Rightarrow> bool" where
  "link_conflict st l =
     (case l of None \<Rightarrow> False | Some s \<Rightarrow> Some s \<in> set (map link (rows st)))"

text \<open>
  \<^verbatim>\<open>id INTEGER PRIMARY KEY AUTOINCREMENT\<close>: the id of the next statement is one more than
  the largest id handed out so far and than every id in the table.
\<close>

definition next_id :: "store \<Rightarrow> nat" where
  "next_id st = fold max (map row_id (rows st)) (seq st) + 1"

text \<open>
  \<^verbatim>\<open>cursor.execute("INSERT OR IGNORE INTO scraped_data ... VALUES (?, ?, ?, ?, ?)", params)\<close>
  at database time \<open>now\<close>: the new store and \<^verbatim>\<open>cursor.rowcount\<close>, or the exception raised
  while binding the parameters, in their order; the store is then as it was. The
  statement takes its id before the uniqueness of the link is checked: a conflicting row
  is skipped without an exception and its id is never used again.
\<close>

definition execute_insert ::
  "store \<Rightarrow> nat \<Rightarrow> pyval \<times> pyval \<times> pyval \<times> pyval \<times> pyval \<Rightarrow> insert_error + store \<times> nat" where
  "execute_insert st now params =
     (case params of (t, a, d, l, c) \<Rightarrow>
        bind_err (adapt t) (\<lambda>t.
        bind_err (adapt a) (\<lambda>a.
        bind_err (adapt d) (\<lambda>d.
        bind_err (adapt l) (\<lambda>l.
        bind_err (adapt c) (\<lambda>c.
          if link_conflict st l then Inr (st\<lparr>seq := next_id st\<rparr>, 0)
          else Inr (st\<lparr>rows := rows st @
                          [\<lparr>row_id = next_id st, title = t, author = a, date = d,
                            link = l, content = c, scraped_at = now\<rparr>],
                        seq := next_id st\<rparr>, 1)))))))"

text \<open>
  One turn of the loop of \<^verbatim>\<open>SQLiteStorage.save\<close> on the store and the three counters
  \<open>(inserted, duplicates, errors)\<close>.
\<close>

type_synonym counters = "nat \<times> nat \<times> nat"

definition save_item ::
  "nat \<Rightarrow> store \<times> counters \<Rightarrow> (string, pyval) dict \<Rightarrow> store \<times> counters" where
  "save_item now s item =
     (case s of (st, inserted, duplicates, errors) \<Rightarrow>
        (case execute_insert st now
                (dict_get item ''title'', dict_get item ''author'', dict_get item ''date'',
                 dict_get item ''link'', dict_get item ''content'') of
           Inr (st', rowcount) \<Rightarrow>
             if rowcount > 0 then (st', inserted + 1, duplicates, errors)
             else (st', inserted, duplicates + 1, errors)
         | Inl e \<Rightarrow>
             if e = IntegrityError then (st, inserted, duplicates + 1, errors)
             else (st, inserted, duplicates, errors + 1)))"

text \<open>
  The loop; \<open>clock k\<close> is the database time when the \<open>k\<close>-th statement of the call runs.
\<close>

fun save_loop ::
  "(nat \<Rightarrow> nat) \<Rightarrow> nat \<Rightarrow> (string, pyval) dict list \<Rightarrow> store \<times> counters \<Rightarrow> store \<times> counters" where
  "save_loop clock k [] s = s"
| "save_loop clock k (item # data) s = save_loop clock (Suc k) data (save_item (clock k) s item)"

text \<open>
  \<^verbatim>\<open>save\<close> returns nothing; what it tells the caller is the line it logs: the warning for
  an empty batch, or the three counts.
\<close>

datatype report = NothingToSave | Updated nat nat nat

definition save ::
  "(nat \<Rightarrow> nat) \<Rightarrow> store \<Rightarrow> (string, pyval) dict list \<Rightarrow> store \<times> report" where
  "save clock st data =
     (if data = [] then (st, NothingToSave)
      else (case save_loop clock 0 data (st, 0, 0, 0) of
              (st', inserted, duplicates, errors) \<Rightarrow> (st', Updated inserted duplicates errors)))"

section \<open>Vocabulary of the statements\<close>

text \<open>
  A value is text when it is \<^verbatim>\<open>None\<close> or a string without a surrogate, and a record is a
  text record when each of the five columns \<^verbatim>\<open>save\<close> reads holds text or is missing.
  \<open>sql_value\<close> is what the database stores for a text value, \<open>row_of n now item\<close> the row
  written for \<open>item\<close> with id \<open>n\<close> at time \<open>now\<close>, and \<open>null_links\<close> the number of rows
  without a link.
\<close>

definition columns :: "string list" where
  "columns = [''title'', ''author'', ''date'', ''link'', ''content'']"

fun text_value :: "pyval \<Rightarrow> bool" where
  "text_value PyNone = True"
| "text_value (PyStr s) = (\<not> list_ex surrogate s)"
| "text_value PyObject = False"

definition text_record :: "(string, pyval) dict \<Rightarrow> bool" where
  "text_record item = list_all (\<lambda>k. text_value (dict_get item k)) columns"

fun sql_value :: "pyval \<Rightarrow> pystr option" where
  "sql_value (PyStr s) = Some s"
| "sql_value v = None"

definition stored_link :: "(string, pyval) dict \<Rightarrow> pystr option" where
  "stored_link item = sql_value (dict_get item ''link'')"

definition row_of :: "nat \<Rightarrow> nat \<Rightarrow> (string, pyval) dict \<Rightarrow> row" where
  "row_of n now item =
     \<lparr>row_id = n,
      title = sql_value (dict_get item ''title''),
      author = sql_value (dict_get item ''author''),
      date = sql_value (dict_get item ''date''),
      link = sql_value (dict_get item ''link''),
      content = sql_value (dict_get item ''content''),
      scraped_at = now\<rparr>"

definition null_links :: "store \<Rightarrow> nat" where
  "null_links st = length (filter (\<lambda>r. link r = None) (rows st))"

text \<open>
  The numbers of records a call of \<^verbatim>\<open>save\<close> inserted, skipped as duplicates and failed
  on: the three it logs, and none when it returned at its guard, before the loop.
\<close>

fun counts :: "report \<Rightarrow> nat \<times> nat \<times> nat" where
  "counts NothingToSave = (0, 0, 0)"
| "counts (Updated inserted duplicates errors) = (inserted, duplicates, errors)"

section \<open>Example inputs\<close>

subsection \<open>Pages\<close>

definition empty_container :: container where
  "empty_container = \<lparr>query_selector = (\<lambda>s. Inr None)\<rparr>"

definition blank_page :: page where
  "blank_page =
     \<lparr>netloc = ''example.com'',
      query_selector_all = (\<lambda>s. Inr []),
      evaluate = (\<lambda>js. Inl DriverError)\<rparr>"

definition articles_page :: page where
  "articles_page =
     \<lparr>netloc = ''example.com'',
      query_selector_all =
        (\<lambda>s. if s = ''article'' then Inr (replicate 5 empty_container)
             else if s = ''.item'' then Inr (replicate 200 empty_container)
             else Inr []),
      evaluate = (\<lambda>js. Inl DriverError)\<rparr>"

definition crowded_page :: page where
  "crowded_page =
     \<lparr>netloc = ''example.com'',
      query_selector_all =
        (\<lambda>s. if s = ''article'' then Inr (replicate 200 empty_container)
             else if s = ''.post'' then Inl DriverError
             else if s = ''.item'' then Inr (replicate 5 empty_container)
             else Inr []),
      evaluate = (\<lambda>js. Inl DriverError)\<rparr>"

definition broken_page :: page where
  "broken_page =
     \<lparr>netloc = ''example.com'',
      query_selector_all = (\<lambda>s. if s = ''article'' then Inl DriverError else Inr []),
      evaluate = (\<lambda>js. Inl DriverError)\<rparr>"

definition broken_title_page :: page where
  "broken_title_page =
     \<lparr>netloc = ''example.com'',
      query_selector_all = (\<lambda>s. if s = ''h1'' then Inl DriverError else Inr []),
      evaluate = (\<lambda>js. Inl DriverError)\<rparr>"

definition closed_page :: "string \<Rightarrow> page" where
  "closed_page nl =
     \<lparr>netloc = nl,
      query_selector_all = (\<lambda>s. Inl DriverError),
      evaluate = (\<lambda>js. Inl DriverError)\<rparr>"

subsection \<open>Containers\<close>

definition text_element :: "string \<Rightarrow> element" where
  "text_element s = \<lparr>inner_text = Inr s, get_attribute = (\<lambda>a. Inr None)\<rparr>"

definition detached_element :: element where
  "detached_element = \<lparr>inner_text = Inl DriverError, get_attribute = (\<lambda>a. Inr None)\<rparr>"

definition titled :: "string \<Rightarrow> container" where
  "titled t =
     \<lparr>query_selector =
        (\<lambda>s. if s = ''h1, h2, h3, .title, .headline'' then Inr (Some (text_element t))
             else Inr None)\<rparr>"

definition untitled :: container where
  \<open>untitled =
     \<lparr>query_selector =
        (\<lambda>s. if s = ''.author, .byline, [rel="author"]'' then Inr (Some (text_element ''Ann''))
             else if s = ''time, .date, .published'' then Inr (Some (text_element '' 2024 ''))
             else if s = ''.content, .description, .summary, p''
               then Inr (Some (text_element ''text''))
             else Inr None)\<rparr>\<close>

definition half_broken :: container where
  \<open>half_broken =
     \<lparr>query_selector =
        (\<lambda>s. if s = ''h1, h2, h3, .title, .headline'' then Inr (Some (text_element ''First''))
             else if s = ''.author, .byline, [rel="author"]'' then Inr (Some detached_element)
             else Inr None)\<rparr>\<close>

definition listing_page :: "container list \<Rightarrow> page" where
  "listing_page cs =
     \<lparr>netloc = ''example.com'',
      query_selector_all =
        (\<lambda>s. if s = ''article, .post, .card, .item, .news-item'' then Inr cs else Inr []),
      evaluate = (\<lambda>js. Inl DriverError)\<rparr>"

subsection \<open>Batches\<close>

text \<open>\<open>str s\<close> is the Python string with the characters of \<open>s\<close>.\<close>

definition str :: "string \<Rightarrow> pystr" where
  "str s = map of_char s"

definition clock0 :: "nat \<Rightarrow> nat" where
  "clock0 k = k"

definition mixed_batch :: "(string, pyval) dict list" where
  "mixed_batch =
     [[(''title'', PyStr (str ''A'')), (''link'', PyStr (str ''https://example.com/a''))],
      [(''title'', PyObject), (''link'', PyStr (str ''https://example.com/b''))],
      [(''title'', PyStr (str ''C'')), (''link'', PyStr (str ''https://example.com/a''))]]"

definition two_links :: "(string, pyval) dict list" where
  "two_links =
     [[(''title'', PyStr (str ''A'')), (''link'', PyStr (str ''https://example.com/a''))],
      [(''title'', PyStr (str ''B'')), (''link'', PyStr (str ''https://example.com/b'')),
       (''author'', PyNone)]]"

definition surrogate_link :: "(string, pyval) dict list" where
  "surrogate_link = [[(''title'', PyStr (str ''A'')), (''link'', PyStr [0xD800])]]"

definition surrogate_title :: "(string, pyval) dict list" where
  "surrogate_title = [[(''title'', PyStr [0xDC00]), (''content'', PyStr (str ''text''))]]"

definition linkless_batch :: "(string, pyval) dict list" where
  "linkless_batch =
     [[(''title'', PyStr (str ''A''))],
      [(''title'', PyStr (str ''A'')), (''link'', PyNone)],
      [(''title'', PyStr (str ''B'')), (''link'', PyStr (str ''https://example.com/b''))],
      [(''content'', PyStr (str ''text''))]]"

definition linkless_store :: store where
  "linkless_store =
     \<lparr>rows = [\<lparr>row_id = 1, title = Some (str ''A''), author = None, date = None, link = None,
               content = None, scraped_at = 0\<rparr>],
      seq = 1\<rparr>"

section \<open>The store: agent/storage.py\<close>

subsection \<open>One record, one counter\<close>

lemma adapt_cases: "(\<exists>e. adapt v = Inl e \<and> e \<noteq> IntegrityError) \<or> (\<exists>x. adapt v = Inr x)"
  by (cases v) auto

lemma execute_insert_Inl:
  assumes "execute_insert st now params = Inl e"
  shows "e \<noteq> IntegrityError"
proof -
  obtain t a d l c where p: "params = (t, a, d, l, c)"
    by (cases params) auto
  have no: "\<And>v. adapt v \<noteq> Inl IntegrityError"
    subgoal for v by (cases v) auto
    done
  from assms show ?thesis
    unfolding p execute_insert_def bind_err_def
    by (auto split: sum.splits if_splits simp: no)
qed

lemma execute_insert_Inr:
  assumes "execute_insert st now params = Inr (st', n)"
  shows "(st' = st\<lparr>seq := next_id st\<rparr> \<and> n = 0)
         \<or> (\<exists>r. st' = st\<lparr>rows := rows st @ [r], seq := next_id st\<rparr> \<and> n = 1)"
proof -
  obtain t a d l c where p: "params = (t, a, d, l, c)"
    by (cases params) auto
  from assms show ?thesis
    unfolding p execute_insert_def bind_err_def
    by (auto split: sum.splits if_splits)
qed

lemma execute_insert_cases:
  "(\<exists>e. execute_insert st now params = Inl e \<and> e \<noteq> IntegrityError)
   \<or> execute_insert st now params = Inr (st\<lparr>seq := next_id st\<rparr>, 0)
   \<or> (\<exists>r. execute_insert st now params
          = Inr (st\<lparr>rows := rows st @ [r], seq := next_id st\<rparr>, 1))"
proof (cases "execute_insert st now params")
  case (Inl e)
  with execute_insert_Inl [OF Inl] show ?thesis
    by simp
next
  case (Inr r)
  obtain st' n where r: "r = (st', n)"
    by (cases r) auto
  from execute_insert_Inr [OF Inr [unfolded r]] Inr r show ?thesis
    by auto
qed

lemma save_item_one_counter:
  "\<exists>st'. save_item now (st, i, d, e) item = (st', Suc i, d, e)
       \<or> save_item now (st, i, d, e) item = (st', i, Suc d, e)
       \<or> save_item now (st, i, d, e) item = (st', i, d, Suc e)"
  using execute_insert_cases [of st now "(dict_get item ''title'', dict_get item ''author'',
      dict_get item ''date'', dict_get item ''link'', dict_get item ''content'')"]
  by (auto simp: save_item_def)

lemma save_loop_total:
  "\<exists>st' i' d' e'. save_loop clock k data (st, i, d, e) = (st', i', d', e')
      \<and> i' + d' + e' = i + d + e + length data"
proof (induction data arbitrary: k st i d e)
  case Nil
  then show ?case by simp
next
  case (Cons item data)
  from save_item_one_counter [of "clock k" st i d e item]
  obtain st1 i1 d1 e1 where s: "save_item (clock k) (st, i, d, e) item = (st1, i1, d1, e1)"
    and sum: "i1 + d1 + e1 = Suc (i + d + e)"
    by auto
  from Cons.IH [of "Suc k" st1 i1 d1 e1] s sum show ?case
    by auto
qed

text \<open>
  Claim C10. \<^verbatim>\<open>save\<close> is total: whatever the records hold, it ends with a report and no
  exception of a record's insert leaves it. An empty batch is answered with the warning
  alone; for any other batch the three counts add up to the length of the batch, because
  each turn of the loop adds one to exactly one of the three counters.
\<close>

theorem save_counts_every_record:
  "(data = [] \<longrightarrow> save clock st data = (st, NothingToSave))
   \<and> (data \<noteq> [] \<longrightarrow>
        (\<exists>st' i d e. save clock st data = (st', Updated i d e) \<and> i + d + e = length data))
   \<and> (\<exists>st'. save_item now (st, i0, d0, e0) item = (st', i0 + 1, d0, e0)
           \<or> save_item now (st, i0, d0, e0) item = (st', i0, d0 + 1, e0)
           \<or> save_item now (st, i0, d0, e0) item = (st', i0, d0, e0 + 1))"
proof (intro conjI impI)
  show "data = [] \<Longrightarrow> save clock st data = (st, NothingToSave)"
    by (simp add: save_def)
next
  assume ne: "data \<noteq> []"
  from save_loop_total [of clock 0 data st 0 0 0]
  obtain st' i d e where "save_loop clock 0 data (st, 0, 0, 0) = (st', i, d, e)"
    and "i + d + e = length data"
    by auto
  with ne show "\<exists>st' i d e. save clock st data = (st', Updated i d e) \<and> i + d + e = length data"
    by (simp add: save_def)
next
  from save_item_one_counter [of now st i0 d0 e0 item]
  show "\<exists>st'. save_item now (st, i0, d0, e0) item = (st', i0 + 1, d0, e0)
           \<or> save_item now (st, i0, d0, e0) item = (st', i0, d0 + 1, e0)
           \<or> save_item now (st, i0, d0, e0) item = (st', i0, d0, e0 + 1)"
    by simp
qed

lemmas store_simps =
  save_def save_item_def execute_insert_def bind_err_def dict_get_def link_conflict_def
  next_id_def empty_store_def clock0_def str_def surrogate_def

text \<open>
  Claim C10, at a batch of three records: one new, one whose title cannot be bound, one
  repeating the first link. The report is one inserted, one duplicate, one error.
\<close>

theorem save_counts_every_record_witness:
  "mixed_batch \<noteq> []
   \<and> (\<exists>st' i d e. save clock0 empty_store mixed_batch = (st', Updated i d e)
          \<and> i + d + e = length mixed_batch)
   \<and> snd (save clock0 empty_store mixed_batch) = Updated 1 1 1"
proof -
  have ne: "mixed_batch \<noteq> []"
    by (simp add: mixed_batch_def)
  have "snd (save clock0 empty_store mixed_batch) = Updated 1 1 1"
    by (simp add: mixed_batch_def store_simps)
  with ne save_counts_every_record [of mixed_batch clock0 empty_store] show ?thesis
    by blast
qed

subsection \<open>Records that can be bound\<close>

lemma adapt_text: "text_value v \<Longrightarrow> adapt v = Inr (sql_value v)"
  by (cases v) auto

lemma adapt_not_text: "\<not> text_value v \<Longrightarrow> \<exists>e. adapt v = Inl e \<and> e \<noteq> IntegrityError"
  by (cases v) auto

lemma link_row_of [simp]: "link (row_of n now item) = stored_link item"
  by (simp add: row_of_def stored_link_def)

lemma text_recordD:
  assumes "text_record item"
  shows "text_value (dict_get item ''title'')" "text_value (dict_get item ''author'')"
    "text_value (dict_get item ''date'')" "text_value (dict_get item ''link'')"
    "text_value (dict_get item ''content'')"
  using assms by (simp_all add: text_record_def columns_def)

lemma execute_insert_text:
  assumes "text_record item"
  shows "execute_insert st now
           (dict_get item ''title'', dict_get item ''author'', dict_get item ''date'',
            dict_get item ''link'', dict_get item ''content'') =
         (if link_conflict st (stored_link item) then Inr (st\<lparr>seq := next_id st\<rparr>, 0)
          else Inr (st\<lparr>rows := rows st @ [row_of (next_id st) now item],
                        seq := next_id st\<rparr>, 1))"
  using text_recordD [OF assms]
  by (simp add: execute_insert_def bind_err_def adapt_text row_of_def stored_link_def)

lemma execute_insert_not_text:
  assumes "\<not> text_record item"
  shows "\<exists>e. execute_insert st now
           (dict_get item ''title'', dict_get item ''author'', dict_get item ''date'',
            dict_get item ''link'', dict_get item ''content'') = Inl e \<and> e \<noteq> IntegrityError"
proof -
  from assms consider "\<not> text_value (dict_get item ''title'')"
    | "\<not> text_value (dict_get item ''author'')" | "\<not> text_value (dict_get item ''date'')"
    | "\<not> text_value (dict_get item ''link'')" | "\<not> text_value (dict_get item ''content'')"
    by (auto simp: text_record_def columns_def)
  then show ?thesis
  proof cases
    case 1
    from adapt_not_text [OF 1] show ?thesis
      by (auto simp: execute_insert_def bind_err_def)
  next
    case 2
    from adapt_not_text [OF 2] adapt_cases [of "dict_get item ''title''"] show ?thesis
      by (auto simp: execute_insert_def bind_err_def)
  next
    case 3
    from adapt_not_text [OF 3] adapt_cases [of "dict_get item ''title''"]
      adapt_cases [of "dict_get item ''author''"] show ?thesis
      by (auto simp: execute_insert_def bind_err_def)
  next
    case 4
    from adapt_not_text [OF 4] adapt_cases [of "dict_get item ''title''"]
      adapt_cases [of "dict_get item ''author''"] adapt_cases [of "dict_get item ''date''"]
    show ?thesis
      by (auto simp: execute_insert_def bind_err_def)
  next
    case 5
    from adapt_not_text [OF 5] adapt_cases [of "dict_get item ''title''"]
      adapt_cases [of "dict_get item ''author''"] adapt_cases [of "dict_get item ''date''"]
      adapt_cases [of "dict_get item ''link''"]
    show ?thesis
      by (auto simp: execute_insert_def bind_err_def)
  qed
qed

lemma save_item_not_text:
  "\<not> text_record item \<Longrightarrow> save_item now (st, i, d, e) item = (st, i, d, e + 1)"
  using execute_insert_not_text [of item st now] by (auto simp: save_item_def)

lemma save_item_fresh:
  assumes "text_record item" and "\<not> link_conflict st (stored_link item)"
  shows "save_item now (st, i, d, e) item =
         (st\<lparr>rows := rows st @ [row_of (next_id st) now item], seq := next_id st\<rparr>, i + 1, d, e)"
  using assms by (simp add: save_item_def execute_insert_text)

lemma save_item_conflict:
  assumes "text_record item" and "link_conflict st (stored_link item)"
  shows "save_item now (st, i, d, e) item = (st\<lparr>seq := next_id st\<rparr>, i, d + 1, e)"
  using assms by (simp add: save_item_def execute_insert_text)

lemma link_conflict_iff:
  "link_conflict st l \<longleftrightarrow> l \<noteq> None \<and> l \<in> set (map link (rows st))"
  by (cases l) (simp_all add: link_conflict_def)

lemma fold_max_below: "\<forall>x\<in>set xs. x \<le> a \<Longrightarrow> fold max xs (a::nat) = a"
  by (induction xs) (simp_all add: max_absorb2)

lemma next_id_issued:
  assumes "\<forall>r\<in>set (rows st). row_id r \<le> seq st"
  shows "next_id st = seq st + 1"
  using assms by (simp add: next_id_def fold_max_below)

subsection \<open>Saving a batch twice\<close>

lemma save_loop_fresh:
  assumes "\<forall>item\<in>set data. text_record item"
    and "distinct (filter (\<lambda>l. l \<noteq> None) (map stored_link data))"
    and "\<forall>item\<in>set data. \<not> link_conflict st (stored_link item)"
    and "\<forall>r\<in>set (rows st). row_id r \<le> seq st"
  shows "save_loop clock k data (st, i, d, e) =
         (st\<lparr>rows := rows st @
                 map (\<lambda>j. row_of (seq st + 1 + j) (clock (k + j)) (data ! j)) [0..<length data],
             seq := seq st + length data\<rparr>,
          i + length data, d, e)"
  using assms
proof (induction data arbitrary: k st i)
  case Nil
  then show ?case by simp
next
  case (Cons item data)
  let ?st1 = "st\<lparr>rows := rows st @ [row_of (seq st + 1) (clock k) item], seq := seq st + 1\<rparr>"
  have nid: "next_id st = seq st + 1"
    using Cons.prems(4) by (rule next_id_issued)
  have step: "save_item (clock k) (st, i, d, e) item = (?st1, i + 1, d, e)"
    using Cons.prems(1,3) by (simp add: save_item_fresh nid)
  have typed: "\<forall>x\<in>set data. text_record x"
    using Cons.prems by simp
  have dist: "distinct (filter (\<lambda>l. l \<noteq> None) (map stored_link data))"
    using Cons.prems(2) by (simp split: if_splits)
  have fresh: "\<forall>x\<in>set data. \<not> link_conflict ?st1 (stored_link x)"
  proof
    fix x assume x: "x \<in> set data"
    with Cons.prems(3) have old: "\<not> link_conflict st (stored_link x)" by simp
    show "\<not> link_conflict ?st1 (stored_link x)"
    proof (cases "stored_link x")
      case None
      then show ?thesis by (simp add: link_conflict_iff)
    next
      case (Some s)
      with Cons.prems(2) x have "stored_link item \<noteq> Some s"
        by (auto split: if_splits simp: image_iff)
      with old Some show ?thesis
        by (auto simp: link_conflict_iff)
    qed
  qed
  have inv: "\<forall>r\<in>set (rows ?st1). row_id r \<le> seq ?st1"
    using Cons.prems(4) by (auto simp: row_of_def)
  show ?case
    using Cons.IH [OF typed dist fresh inv, of "Suc k" "i + 1"] step
    by (simp add: map_upt_Suc del: upt_Suc)
qed

lemma save_loop_conflicts:
  assumes "\<forall>item\<in>set data. text_record item \<and> link_conflict st (stored_link item)"
    and "\<forall>r\<in>set (rows st). row_id r \<le> seq st"
  shows "save_loop clock k data (st, i, d, e) =
         (st\<lparr>seq := seq st + length data\<rparr>, i, d + length data, e)"
  using assms
proof (induction data arbitrary: k d st)
  case Nil
  then show ?case by simp
next
  case (Cons item data)
  let ?st1 = "st\<lparr>seq := seq st + 1\<rparr>"
  have nid: "next_id st = seq st + 1"
    using Cons.prems(2) by (rule next_id_issued)
  have step: "save_item (clock k) (st, i, d, e) item = (?st1, i, d + 1, e)"
    using Cons.prems(1) by (simp add: save_item_conflict nid)
  have taken: "\<forall>x\<in>set data. text_record x \<and> link_conflict ?st1 (stored_link x)"
    using Cons.prems(1) by (simp add: link_conflict_iff)
  have inv: "\<forall>r\<in>set (rows ?st1). row_id r \<le> seq ?st1"
    using Cons.prems(2) by auto
  show ?case
    using Cons.IH [OF taken inv, of "Suc k" "d + 1"] step by simp
qed

lemma stored_links_distinct:
  assumes "\<forall>item\<in>set data. text_record item \<and> dict_get item ''link'' \<noteq> PyNone"
    and "distinct (map (\<lambda>item. dict_get item ''link'') data)"
  shows "distinct (map stored_link data) \<and> (\<forall>item\<in>set data. stored_link item \<noteq> None)"
proof -
  have val: "\<And>item. item \<in> set data \<Longrightarrow> dict_get item ''link'' = PyStr (the (stored_link item))"
  proof -
    fix item assume "item \<in> set data"
    with assms(1) have "text_value (dict_get item ''link'')" "dict_get item ''link'' \<noteq> PyNone"
      by (auto dest: text_recordD)
    then show "dict_get item ''link'' = PyStr (the (stored_link item))"
      by (cases "dict_get item ''link''") (simp_all add: stored_link_def)
  qed
  have some: "\<forall>item\<in>set data. stored_link item \<noteq> None"
  proof
    fix item assume item: "item \<in> set data"
    with assms(1) have "dict_get item ''link'' \<noteq> PyNone" by simp
    with val [OF item] show "stored_link item \<noteq> None"
      by (cases "dict_get item ''link''") (simp_all add: stored_link_def)
  qed
  have "inj_on stored_link (set data) \<and> distinct data"
  proof
    from assms(2) have d: "distinct data" and inj: "inj_on (\<lambda>item. dict_get item ''link'') (set data)"
      by (simp_all add: distinct_map)
    show "distinct data" by (rule d)
    show "inj_on stored_link (set data)"
    proof (rule inj_onI)
      fix x y assume x: "x \<in> set data" and y: "y \<in> set data" and eq: "stored_link x = stored_link y"
      from val [OF x] val [OF y] eq have "dict_get x ''link'' = dict_get y ''link''"
        by simp
      with inj x y show "x = y"
        by (auto dest: inj_onD)
    qed
  qed
  then have "distinct (map stored_link data)"
    by (simp add: distinct_map)
  with some show ?thesis
    by simp
qed

text \<open>
  Claim C1, as amended. For every batch of \<open>N\<close> text records whose links are not null and
  pairwise distinct: saved into the empty store, the batch counts as \<open>N\<close> inserted and no
  duplicate, and the store then holds one row per record, in order, with ids from 1; saved
  a second time, at any clock, it counts as nothing inserted and \<open>N\<close> duplicates, and the
  rows are the ones the first call wrote. For a batch that is not empty these counts are
  the ones logged; the empty batch is answered at the guard of \<^verbatim>\<open>save\<close>, nothing inserted
  and nothing skipped.
\<close>

theorem save_twice_first_write_wins:
  assumes "list_all text_record data"
    and "list_all (\<lambda>item. dict_get item ''link'' \<noteq> PyNone) data"
    and "distinct (map (\<lambda>item. dict_get item ''link'') data)"
  shows "\<exists>st1 r1 st2 r2.
           save clock empty_store data = (st1, r1) \<and> counts r1 = (length data, 0, 0)
           \<and> save clock' st1 data = (st2, r2) \<and> counts r2 = (0, length data, 0)
           \<and> rows st1 = map (\<lambda>j. row_of (j + 1) (clock j) (data ! j)) [0..<length data]
           \<and> rows st2 = rows st1
           \<and> (data \<noteq> [] \<longrightarrow> r1 = Updated (length data) 0 0 \<and> r2 = Updated 0 (length data) 0)"
proof -
  let ?rows = "map (\<lambda>j. row_of (j + 1) (clock j) (data ! j)) [0..<length data]"
  let ?st1 = "empty_store\<lparr>rows := ?rows, seq := length data\<rparr>"
  let ?st2 = "?st1\<lparr>seq := length data + length data\<rparr>"
  have typed: "\<forall>item\<in>set data. text_record item"
    using assms(1) by (simp add: list_all_iff)
  have both: "\<forall>item\<in>set data. text_record item \<and> dict_get item ''link'' \<noteq> PyNone"
    using assms(1,2) by (simp add: list_all_iff)
  from stored_links_distinct [OF both assms(3)]
  have dist': "distinct (map stored_link data)"
    and some: "\<forall>item\<in>set data. stored_link item \<noteq> None"
    by simp_all
  have dist: "distinct (filter (\<lambda>l. l \<noteq> None) (map stored_link data))"
    using dist' by (rule distinct_filter)
  have fresh: "\<forall>item\<in>set data. \<not> link_conflict empty_store (stored_link item)"
    by (simp add: link_conflict_iff empty_store_def)
  have inv0: "\<forall>r\<in>set (rows empty_store). row_id r \<le> seq empty_store"
    by (simp add: empty_store_def)
  have first: "save_loop clock 0 data (empty_store, 0, 0, 0) = (?st1, length data, 0, 0)"
    using save_loop_fresh [OF typed dist fresh inv0, of clock 0 0 0 0]
    by (simp add: empty_store_def)
  have links: "map link ?rows = map stored_link data"
    by (rule nth_equalityI) simp_all
  have r1: "rows ?st1 = ?rows"
    by simp
  with links have rows1: "map link (rows ?st1) = map stored_link data"
    by (simp only:)
  have taken: "\<forall>item\<in>set data. text_record item \<and> link_conflict ?st1 (stored_link item)"
  proof
    fix item assume item: "item \<in> set data"
    then have "stored_link item \<in> set (map link (rows ?st1))"
      unfolding rows1 by simp
    with typed some item show "text_record item \<and> link_conflict ?st1 (stored_link item)"
      unfolding link_conflict_iff by blast
  qed
  have inv1: "\<forall>r\<in>set (rows ?st1). row_id r \<le> seq ?st1"
    by (auto simp: row_of_def)
  have second: "save_loop clock' 0 data (?st1, 0, 0, 0) = (?st2, 0, length data, 0)"
    using save_loop_conflicts [OF taken inv1, of clock' 0 0 0 0] by simp
  show ?thesis
  proof (cases "data = []")
    case True
    then show ?thesis
      by (simp add: save_def empty_store_def)
  next
    case False
    with first have s1: "save clock empty_store data = (?st1, Updated (length data) 0 0)"
      by (simp add: save_def)
    from False second have s2: "save clock' ?st1 data = (?st2, Updated 0 (length data) 0)"
      by (simp add: save_def)
    have "rows ?st2 = rows ?st1"
      by simp
    with s1 s2 r1 show ?thesis
      by (intro exI [of _ ?st1] exI [of _ "Updated (length data) 0 0"] exI [of _ ?st2]
          exI [of _ "Updated 0 (length data) 0"]) (simp only: counts.simps simp_thms)
  qed
qed


text \<open>
  Claim C1, as amended, at a batch of two records with the links \<open>.../a\<close> and \<open>.../b\<close>:
  two inserted with the ids 1 and 2, then two duplicates and the same rows. The second
  call uses up the ids 3 and 4.
\<close>

theorem save_twice_first_write_wins_witness:
  "list_all text_record two_links
   \<and> list_all (\<lambda>item. dict_get item ''link'' \<noteq> PyNone) two_links
   \<and> distinct (map (\<lambda>item. dict_get item ''link'') two_links)
   \<and> snd (save clock0 empty_store two_links) = Updated 2 0 0
   \<and> snd (save clock0 (fst (save clock0 empty_store two_links)) two_links) = Updated 0 2 0
   \<and> rows (fst (save clock0 (fst (save clock0 empty_store two_links)) two_links))
       = rows (fst (save clock0 empty_store two_links))
   \<and> map row_id (rows (fst (save clock0 empty_store two_links))) = [1, 2]
   \<and> seq (fst (save clock0 empty_store two_links)) = 2
   \<and> seq (fst (save clock0 (fst (save clock0 empty_store two_links)) two_links)) = 4"
proof -
  have a: "list_all text_record two_links"
    by (simp add: two_links_def text_record_def columns_def dict_get_def str_def surrogate_def)
  have b: "list_all (\<lambda>item. dict_get item ''link'' \<noteq> PyNone) two_links"
    by (simp add: two_links_def dict_get_def)
  have c: "distinct (map (\<lambda>item. dict_get item ''link'') two_links)"
    by (simp add: two_links_def dict_get_def str_def)
  have n: "length two_links = 2" "two_links \<noteq> []"
    by (simp_all add: two_links_def)
  have first: "save clock0 empty_store two_links =
      (\<lparr>rows = [row_of 1 0 (two_links ! 0), row_of 2 1 (two_links ! 1)], seq = 2\<rparr>,
       Updated 2 0 0)"
    by (simp add: two_links_def store_simps row_of_def)
  have ids: "map row_id (rows (fst (save clock0 empty_store two_links))) = [1, 2]"
    unfolding first by (simp add: row_of_def)
  have sq: "seq (fst (save clock0 empty_store two_links)) = 2"
    unfolding first by simp
  have sq2: "seq (fst (save clock0 (fst (save clock0 empty_store two_links)) two_links)) = 4"
    unfolding first by (simp add: two_links_def store_simps row_of_def)
  from save_twice_first_write_wins [OF a b c, of clock0 clock0] n
  have "snd (save clock0 empty_store two_links) = Updated 2 0 0
   \<and> snd (save clock0 (fst (save clock0 empty_store two_links)) two_links) = Updated 0 2 0
   \<and> rows (fst (save clock0 (fst (save clock0 empty_store two_links)) two_links))
       = rows (fst (save clock0 empty_store two_links))"
    by auto
  with a b c ids sq sq2 show ?thesis
    by (simp only: simp_thms)
qed

text \<open>
  Claim C1 as stated fails at a batch of one record whose link is the string of the lone
  surrogate U+D800. The link is not null and the links of the batch are pairwise
  distinct, but the string cannot be bound: \<^verbatim>\<open>execute\<close> raises, \<^verbatim>\<open>save\<close> counts the record
  as an error, and the first call reports nothing inserted where the claim has one.
\<close>

theorem save_counts_unbindable_link_as_error:
  "length surrogate_link = 1
   \<and> list_all (\<lambda>item. dict_get item ''link'' \<noteq> PyNone) surrogate_link
   \<and> distinct (map (\<lambda>item. dict_get item ''link'') surrogate_link)
   \<and> dict_get (surrogate_link ! 0) ''link'' = PyStr [0xD800]
   \<and> adapt (PyStr [0xD800]) = Inl UnicodeEncodeError
   \<and> save clock0 empty_store surrogate_link = (empty_store, Updated 0 0 1)"
  by (simp add: surrogate_link_def store_simps)

subsection \<open>Records without a link\<close>

lemma stored_link_None_iff:
  "text_record item \<Longrightarrow> stored_link item = None \<longleftrightarrow> dict_get item ''link'' = PyNone"
  using text_recordD(4) [of item]
  by (cases "dict_get item ''link''") (auto simp: stored_link_def)

lemma save_item_linkless:
  assumes "text_record item" and "dict_get item ''link'' = PyNone"
  shows "save_item now (st, i, d, e) item =
         (st\<lparr>rows := rows st @ [row_of (next_id st) now item], seq := next_id st\<rparr>, i + 1, d, e)"
  using assms by (simp add: save_item_fresh link_conflict_iff stored_link_def)

lemma save_item_profile:
  "\<exists>st' i' d' e'. save_item now (st, i, d, e) item = (st', i', d', e')
     \<and> null_links st' =
         null_links st + (if text_record item \<and> dict_get item ''link'' = PyNone then 1 else 0)
     \<and> i + (if text_record item \<and> dict_get item ''link'' = PyNone then 1 else 0) \<le> i'
     \<and> d' \<le> d + (if dict_get item ''link'' = PyNone then 0 else 1)"
proof (cases "text_record item")
  case False
  then show ?thesis by (simp add: save_item_not_text)
next
  case typed: True
  show ?thesis
  proof (cases "link_conflict st (stored_link item)")
    case True
    then have "stored_link item \<noteq> None"
      by (simp add: link_conflict_iff)
    with typed have "dict_get item ''link'' \<noteq> PyNone"
      by (simp add: stored_link_None_iff)
    with typed True show ?thesis
      by (simp add: save_item_conflict null_links_def)
  next
    case False
    with typed show ?thesis
      by (simp add: save_item_fresh stored_link_None_iff null_links_def)
  qed
qed

lemma save_loop_profile:
  "\<exists>st' i' d' e'. save_loop clock k data (st, i, d, e) = (st', i', d', e')
     \<and> null_links st' =
         null_links st
           + length (filter (\<lambda>item. text_record item \<and> dict_get item ''link'' = PyNone) data)
     \<and> i + length (filter (\<lambda>item. text_record item \<and> dict_get item ''link'' = PyNone) data) \<le> i'
     \<and> d' \<le> d + length (filter (\<lambda>item. dict_get item ''link'' \<noteq> PyNone) data)
     \<and> i' + d' + e' = i + d + e + length data"
proof (induction data arbitrary: k st i d e)
  case Nil
  then show ?case by simp
next
  case (Cons item data)
  from save_item_profile [of "clock k" st i d e item]
  obtain st1 i1 d1 e1 where step: "save_item (clock k) (st, i, d, e) item = (st1, i1, d1, e1)"
    and n1: "null_links st1 =
         null_links st + (if text_record item \<and> dict_get item ''link'' = PyNone then 1 else 0)"
    and i1: "i + (if text_record item \<and> dict_get item ''link'' = PyNone then 1 else 0) \<le> i1"
    and d1: "d1 \<le> d + (if dict_get item ''link'' = PyNone then 0 else 1)"
    by blast
  from save_item_one_counter [of "clock k" st i d e item] step
  have s1: "i1 + d1 + e1 = i + d + e + 1"
    by auto
  from Cons.IH [of "Suc k" st1 i1 d1 e1]
  obtain st' i' d' e' where rest: "save_loop clock (Suc k) data (st1, i1, d1, e1) = (st', i', d', e')"
    and n: "null_links st' =
         null_links st1
           + length (filter (\<lambda>item. text_record item \<and> dict_get item ''link'' = PyNone) data)"
    and i': "i1 + length (filter (\<lambda>item. text_record item \<and> dict_get item ''link'' = PyNone) data) \<le> i'"
    and d': "d' \<le> d1 + length (filter (\<lambda>item. dict_get item ''link'' \<noteq> PyNone) data)"
    and s': "i' + d' + e' = i1 + d1 + e1 + length data"
    by blast
  have "save_loop clock k (item # data) (st, i, d, e) = (st', i', d', e')"
    using step rest by simp
  moreover from n n1 have "null_links st' =
         null_links st
           + length (filter (\<lambda>item. text_record item \<and> dict_get item ''link'' = PyNone) (item # data))"
    by simp
  moreover from i1 i' have "i + length (filter (\<lambda>item. text_record item \<and> dict_get item ''link'' = PyNone) (item # data)) \<le> i'"
    by (auto split: if_splits)
  moreover from d1 d' have "d' \<le> d + length (filter (\<lambda>item. dict_get item ''link'' \<noteq> PyNone) (item # data))"
    by (auto split: if_splits)
  moreover from s1 s' have "i' + d' + e' = i + d + e + length (item # data)"
    by simp
  ultimately show ?case by blast
qed

lemma save_profile:
  "\<exists>st' r i' d' e'. save clock st data = (st', r) \<and> counts r = (i', d', e')
     \<and> length (filter (\<lambda>item. text_record item \<and> dict_get item ''link'' = PyNone) data) \<le> i'
     \<and> d' \<le> length (filter (\<lambda>item. dict_get item ''link'' \<noteq> PyNone) data)
     \<and> null_links st' =
         null_links st
           + length (filter (\<lambda>item. text_record item \<and> dict_get item ''link'' = PyNone) data)
     \<and> i' + d' + e' = length data"
proof (cases "data = []")
  case True
  then show ?thesis
    by (simp add: save_def)
next
  case False
  from save_loop_profile [of clock 0 data st 0 0 0] False show ?thesis
    by (auto simp: save_def)
qed

text \<open>
  Claim C9, as amended. A text record whose link is \<^verbatim>\<open>None\<close> or missing is inserted by its
  turn of the loop, whatever the store holds: a new row without a link, counted as
  inserted. No record without a link is ever counted as a duplicate. For a batch: the rows
  without a link grow by exactly the number of text records without a link, that number
  is at most the count of inserted, and the count of duplicates is at most the number of
  records that have a link; a batch of text records without links is reported as all
  inserted.
\<close>

theorem linkless_records_always_inserted:
  "(text_record item \<and> dict_get item ''link'' = PyNone \<longrightarrow>
      save_item now (st, i, d, e) item =
        (st\<lparr>rows := rows st @ [row_of (next_id st) now item], seq := next_id st\<rparr>, i + 1, d, e)
      \<and> link (row_of (next_id st) now item) = None)
   \<and> (dict_get item ''link'' = PyNone \<longrightarrow>
        (\<exists>st' i' e'. save_item now (st, i, d, e) item = (st', i', d, e')))
   \<and> (\<exists>st' r i' d' e'. save clock st data = (st', r) \<and> counts r = (i', d', e')
        \<and> length (filter (\<lambda>item. text_record item \<and> dict_get item ''link'' = PyNone) data) \<le> i'
        \<and> d' \<le> length (filter (\<lambda>item. dict_get item ''link'' \<noteq> PyNone) data)
        \<and> null_links st' =
            null_links st
              + length (filter (\<lambda>item. text_record item \<and> dict_get item ''link'' = PyNone) data))
   \<and> (list_all (\<lambda>item. text_record item \<and> dict_get item ''link'' = PyNone) data \<longrightarrow>
        counts (snd (save clock st data)) = (length data, 0, 0)
        \<and> null_links (fst (save clock st data)) = null_links st + length data)"
proof (intro conjI impI)
  assume a: "text_record item \<and> dict_get item ''link'' = PyNone"
  then show "save_item now (st, i, d, e) item =
        (st\<lparr>rows := rows st @ [row_of (next_id st) now item], seq := next_id st\<rparr>, i + 1, d, e)"
    by (simp add: save_item_linkless)
  from a show "link (row_of (next_id st) now item) = None"
    by (simp add: stored_link_def)
next
  assume a: "dict_get item ''link'' = PyNone"
  from save_item_profile [of now st i d e item] a
  obtain st' i' d' e' where s: "save_item now (st, i, d, e) item = (st', i', d', e')"
    and le: "d' \<le> d"
    by auto
  from save_item_one_counter [of now st i d e item] s have "d \<le> d'"
    by auto
  with le s show "\<exists>st' i' e'. save_item now (st, i, d, e) item = (st', i', d, e')"
    by simp
next
  from save_profile [of clock st data]
  show "\<exists>st' r i' d' e'. save clock st data = (st', r) \<and> counts r = (i', d', e')
        \<and> length (filter (\<lambda>item. text_record item \<and> dict_get item ''link'' = PyNone) data) \<le> i'
        \<and> d' \<le> length (filter (\<lambda>item. dict_get item ''link'' \<noteq> PyNone) data)
        \<and> null_links st' =
            null_links st
              + length (filter (\<lambda>item. text_record item \<and> dict_get item ''link'' = PyNone) data)"
    by blast
next
  assume all: "list_all (\<lambda>item. text_record item \<and> dict_get item ''link'' = PyNone) data"
  then have f1: "filter (\<lambda>item. text_record item \<and> dict_get item ''link'' = PyNone) data = data"
    by (simp add: list_all_iff)
  from all have f2: "filter (\<lambda>item. dict_get item ''link'' \<noteq> PyNone) data = []"
    by (simp add: list_all_iff)
  from save_profile [of clock st data] show "counts (snd (save clock st data)) = (length data, 0, 0)"
    unfolding f1 f2 by auto
  from save_profile [of clock st data]
  show "null_links (fst (save clock st data)) = null_links st + length data"
    unfolding f1 f2 by auto
qed

text \<open>
  Claim C9, as amended, at a store that already holds a row without a link and a batch of
  four records, three of them without a link and two of these equal to each other: four
  inserted, no duplicate, and four rows without a link afterwards.
\<close>

theorem linkless_records_always_inserted_witness:
  "length (filter (\<lambda>item. text_record item \<and> dict_get item ''link'' = PyNone) linkless_batch) = 3
   \<and> null_links linkless_store = 1
   \<and> snd (save clock0 linkless_store linkless_batch) = Updated 4 0 0
   \<and> null_links (fst (save clock0 linkless_store linkless_batch)) = 4
   \<and> text_record (linkless_batch ! 0) \<and> dict_get (linkless_batch ! 0) ''link'' = PyNone
   \<and> snd (save_item 7 (linkless_store, 0, 0, 0) (linkless_batch ! 0)) = (1, 0, 0)"
proof -
  have cnt: "length (filter (\<lambda>item. text_record item \<and> dict_get item ''link'' = PyNone) linkless_batch) = 3"
    by (simp add: linkless_batch_def text_record_def columns_def dict_get_def str_def surrogate_def)
  have t0: "text_record (linkless_batch ! 0) \<and> dict_get (linkless_batch ! 0) ''link'' = PyNone"
    by (simp add: linkless_batch_def text_record_def columns_def dict_get_def str_def surrogate_def)
  have rep: "snd (save clock0 linkless_store linkless_batch) = Updated 4 0 0"
    by (simp add: linkless_batch_def linkless_store_def store_simps)
  have nulls: "null_links linkless_store = 1"
    by (simp add: linkless_store_def null_links_def)
  from linkless_records_always_inserted
    [of "linkless_batch ! 0" 7 linkless_store 0 0 0 clock0 linkless_batch] cnt t0 rep nulls
  show ?thesis
    by auto
qed

text \<open>
  Claim C9 as stated fails at a record without a link whose title is the string of the
  lone surrogate U+DC00: the title cannot be bound, \<^verbatim>\<open>save\<close> counts the record as an error
  and inserts no row.
\<close>

theorem save_counts_unbindable_linkless_as_error:
  "dict_get (surrogate_title ! 0) ''link'' = PyNone
   \<and> dict_get (surrogate_title ! 0) ''title'' = PyStr [0xDC00]
   \<and> adapt (PyStr [0xDC00]) = Inl UnicodeEncodeError
   \<and> save clock0 empty_store surrogate_title = (empty_store, Updated 0 0 1)"
  by (simp add: surrogate_title_def store_simps)

section \<open>The detector: agent/auto\_detect.py\<close>

subsection \<open>The candidate loops\<close>


lemma scan_none:
  assumes "\<forall>c'\<in>set cs. \<exists>m. probe p c' = Inr m \<and> \<not> accept m"
  shows "scan accept p cs = Inr None"
  using assms by (induction cs) auto


lemma scan_try_none:
  assumes "\<forall>c'\<in>set cs. \<forall>m. probe p c' = Inr m \<longrightarrow> \<not> accept m"
  shows "scan_try accept p cs = None"
  using assms by (induction cs) (auto split: sum.splits)

lemma scan_SomeD:
  "scan accept p cs = Inr (Some c) \<Longrightarrow> c \<in> set cs \<and> (\<exists>n. probe p c = Inr n \<and> accept n)"
  by (induction cs) (auto split: sum.splits if_splits)

lemma scan_try_SomeD:
  "scan_try accept p cs = Some c \<Longrightarrow> c \<in> set cs \<and> (\<exists>n. probe p c = Inr n \<and> accept n)"
  by (induction cs) (auto split: sum.splits if_splits)

lemma scan_returns:
  assumes "\<forall>c\<in>set cs. \<exists>n. probe p c = Inr n"
  shows "\<exists>r. scan accept p cs = Inr r"
  using assms by (induction cs) auto

lemma detect_container_cases:
  assumes "detect_container p = Inr c"
  shows "c = container_fallback
         \<or> (c \<in> set (semantic_tags @ common_classes) \<and> (\<exists>n. probe p c = Inr n \<and> in_band n))"
proof (cases "scan in_band p semantic_tags")
  case (Inl e)
  with assms show ?thesis by (simp add: detect_container_def)
next
  case (Inr r)
  show ?thesis
  proof (cases r)
    case (Some tag)
    with Inr assms have "c = tag" by (simp add: detect_container_def)
    with Inr Some scan_SomeD [of in_band p semantic_tags c] show ?thesis by simp
  next
    case None
    show ?thesis
    proof (cases "scan_try in_band p common_classes")
      case None' : None
      with Inr None assms show ?thesis by (simp add: detect_container_def)
    next
      case (Some s)
      with Inr None assms have "c = s" by (simp add: detect_container_def)
      with Some scan_try_SomeD [of in_band p common_classes c] show ?thesis by simp
    qed
  qed
qed


lemma detect_container_fallback:
  assumes "\<forall>c\<in>set semantic_tags. \<exists>m. probe p c = Inr m \<and> \<not> in_band m"
    and "\<forall>c\<in>set common_classes. \<forall>m. probe p c = Inr m \<longrightarrow> \<not> in_band m"
  shows "detect_container p = Inr container_fallback"
  using scan_none [OF assms(1)] scan_try_none [OF assms(2)]
  by (simp add: detect_container_def)


lemma probe_articles:
  "probe articles_page ''article'' = Inr 5" "probe articles_page ''.item'' = Inr 200"
  by (simp_all add: probe_def articles_page_def)


subsection \<open>The template registry\<close>

lemma partial_match_first:
  assumes "sublist k d" and "\<forall>k'\<in>fst ` set pre. \<not> sublist k' d"
  shows "partial_match (pre @ (k, t) # post) d = Some t"
  using assms by (induction pre) auto

lemma partial_match_None_iff:
  "partial_match reg d = None \<longleftrightarrow> (\<forall>k\<in>fst ` set reg. \<not> sublist k d)"
  by (induction reg) (auto split: if_splits)

lemma partial_match_in: "partial_match reg d = Some t \<Longrightarrow> t \<in> snd ` set reg"
  by (induction reg) (auto split: if_splits)

lemma try_template_in_None_iff:
  "try_template_in reg d = None \<longleftrightarrow> (\<forall>k\<in>fst ` set reg. \<not> sublist k d)"
proof (cases "map_of reg d")
  case None
  then show ?thesis
    by (simp add: try_template_in_def partial_match_None_iff)
next
  case (Some t)
  then have "d \<in> dom (map_of reg)"
    by blast
  then have "d \<in> fst ` set reg"
    by (simp add: dom_map_of_conv_image_fst)
  moreover have "sublist d d"
    by simp
  ultimately show ?thesis
    using Some by (auto simp: try_template_in_def)
qed

lemma try_template_in_range: "try_template_in reg d = Some t \<Longrightarrow> t \<in> snd ` set reg"
  by (auto simp: try_template_in_def partial_match_in split: option.splits
      dest!: map_of_SomeD intro: image_eqI [where x = "(d, t)"])

lemma templates_truthy: "\<forall>t\<in>snd ` set SITE_TEMPLATES. t \<noteq> []"
  by (simp add: SITE_TEMPLATES_def)

lemma detect_template:
  assumes "try_template (domain p) = Some t"
  shows "detect p = Inr t"
proof -
  from assms have "t \<in> snd ` set SITE_TEMPLATES"
    unfolding try_template_def by (rule try_template_in_range)
  with templates_truthy have "t \<noteq> []"
    by blast
  with assms show ?thesis
    by (simp add: detect_def)
qed

text \<open>
  Claim C4. When the domain of the page is a key of the registry, \<^verbatim>\<open>detect\<close> returns the
  registered selectors, and does so on a page whose every query raises: no heuristic
  runs. When it is not a key, \<^verbatim>\<open>detect\<close> returns the selectors of the first key, in the
  registry's order, that is a substring of the domain. The heuristic detection is what
  \<^verbatim>\<open>detect\<close> returns when no key is a substring of the domain, and only then is there no
  template.
\<close>

theorem detect_template_lookup:
  "(map_of SITE_TEMPLATES (domain p) = Some t \<longrightarrow>
      detect p = Inr t \<and> detect (p\<lparr>query_selector_all := \<lambda>s. Inl DriverError\<rparr>) = Inr t)
   \<and> (map_of SITE_TEMPLATES (domain p) = None
        \<and> SITE_TEMPLATES = pre @ (k, t) # post
        \<and> sublist k (domain p)
        \<and> (\<forall>k'\<in>fst ` set pre. \<not> sublist k' (domain p))
      \<longrightarrow> detect p = Inr t)
   \<and> ((\<forall>k\<in>fst ` set SITE_TEMPLATES. \<not> sublist k (domain p)) \<longrightarrow>
        try_template (domain p) = None \<and> detect p = heuristic_detection p)
   \<and> (try_template (domain p) = None \<longrightarrow>
        (\<forall>k\<in>fst ` set SITE_TEMPLATES. \<not> sublist k (domain p)))"
proof (intro conjI impI)
  assume exact: "map_of SITE_TEMPLATES (domain p) = Some t"
  then have "try_template (domain p) = Some t"
    by (simp add: try_template_def try_template_in_def)
  then show "detect p = Inr t"
    by (rule detect_template)
  let ?q = "p\<lparr>query_selector_all := \<lambda>s. Inl DriverError\<rparr>"
  have "domain ?q = domain p"
    by (simp add: domain_def)
  with exact have "try_template (domain ?q) = Some t"
    by (simp add: try_template_def try_template_in_def)
  then show "detect ?q = Inr t"
    by (rule detect_template)
next
  assume a: "map_of SITE_TEMPLATES (domain p) = None
        \<and> SITE_TEMPLATES = pre @ (k, t) # post
        \<and> sublist k (domain p)
        \<and> (\<forall>k'\<in>fst ` set pre. \<not> sublist k' (domain p))"
  then have "partial_match (pre @ (k, t) # post) (domain p) = Some t"
    by (intro partial_match_first) simp_all
  with a have "partial_match SITE_TEMPLATES (domain p) = Some t"
    by simp
  with a have "try_template (domain p) = Some t"
    by (simp add: try_template_def try_template_in_def)
  then show "detect p = Inr t"
    by (rule detect_template)
next
  assume "\<forall>k\<in>fst ` set SITE_TEMPLATES. \<not> sublist k (domain p)"
  then show none: "try_template (domain p) = None"
    by (simp only: try_template_def try_template_in_None_iff)
  then show "detect p = heuristic_detection p"
    by (simp add: detect_def)
next
  assume "try_template (domain p) = None"
  then show "\<forall>k\<in>fst ` set SITE_TEMPLATES. \<not> sublist k (domain p)"
    by (simp only: try_template_def try_template_in_None_iff)
qed

lemma domain_closed_page [simp]: "domain (closed_page nl) = extract_domain nl"
  by (simp add: domain_def closed_page_def)

lemma no_key_in_example:
  "\<forall>k\<in>fst ` set SITE_TEMPLATES. \<not> sublist k ''example.com''"
  by (simp add: SITE_TEMPLATES_def sublist_code)

text \<open>
  Claim C4, at \<^verbatim>\<open>www.medium.com\<close> (an exact match once \<^verbatim>\<open>www.\<close> is removed), at
  \<^verbatim>\<open>esporte.folha.uol.com.br\<close> (no exact match; both \<^verbatim>\<open>uol.com.br\<close> and \<^verbatim>\<open>folha.uol.com.br\<close>
  are substrings, and \<^verbatim>\<open>uol.com.br\<close> comes first in the registry) and at \<^verbatim>\<open>example.com\<close>
  (no match).
\<close>

theorem detect_template_lookup_witness:
  "domain (closed_page ''www.medium.com'') = ''medium.com''
   \<and> SITE_TEMPLATES ! 1 = (''medium.com'', snd (SITE_TEMPLATES ! 1))
   \<and> detect (closed_page ''www.medium.com'') = Inr (snd (SITE_TEMPLATES ! 1))
   \<and> SITE_TEMPLATES ! 10 = (''uol.com.br'', snd (SITE_TEMPLATES ! 10))
   \<and> detect (closed_page ''esporte.folha.uol.com.br'') = Inr (snd (SITE_TEMPLATES ! 10))
   \<and> try_template (domain blank_page) = None
   \<and> detect blank_page = heuristic_detection blank_page"
proof -
  let ?m = "closed_page ''www.medium.com''"
  let ?f = "closed_page ''esporte.folha.uol.com.br''"
  have dm: "domain ?m = ''medium.com''"
    by (simp add: extract_domain_def)
  have df: "domain ?f = ''esporte.folha.uol.com.br''"
    by (simp add: extract_domain_def)
  have db: "domain blank_page = ''example.com''"
    by (simp add: domain_def blank_page_def extract_domain_def)
  have m1: "SITE_TEMPLATES ! 1 = (''medium.com'', snd (SITE_TEMPLATES ! 1))"
    by (simp add: SITE_TEMPLATES_def)
  have f10: "SITE_TEMPLATES ! 10 = (''uol.com.br'', snd (SITE_TEMPLATES ! 10))"
    by (simp add: SITE_TEMPLATES_def)
  have exact: "map_of SITE_TEMPLATES (domain ?m) = Some (snd (SITE_TEMPLATES ! 1))"
    unfolding dm by (simp add: SITE_TEMPLATES_def)
  have miss: "map_of SITE_TEMPLATES (domain ?f) = None"
    unfolding df by (simp add: SITE_TEMPLATES_def)
  have split: "SITE_TEMPLATES =
      take 10 SITE_TEMPLATES @ (''uol.com.br'', snd (SITE_TEMPLATES ! 10)) # drop 11 SITE_TEMPLATES"
    by (simp add: SITE_TEMPLATES_def)
  have sub: "sublist ''uol.com.br'' (domain ?f)"
    unfolding df by (simp add: sublist_code)
  have before: "\<forall>k'\<in>fst ` set (take 10 SITE_TEMPLATES). \<not> sublist k' (domain ?f)"
    unfolding df by (simp add: SITE_TEMPLATES_def sublist_code)
  have none: "\<forall>k\<in>fst ` set SITE_TEMPLATES. \<not> sublist k (domain blank_page)"
    unfolding db by (rule no_key_in_example)
  from detect_template_lookup [of ?m "snd (SITE_TEMPLATES ! 1)"] exact
  have 1: "detect ?m = Inr (snd (SITE_TEMPLATES ! 1))"
    by blast
  from detect_template_lookup
    [of ?f "snd (SITE_TEMPLATES ! 10)" "take 10 SITE_TEMPLATES" "''uol.com.br''"
      "drop 11 SITE_TEMPLATES"] miss split sub before
  have 2: "detect ?f = Inr (snd (SITE_TEMPLATES ! 10))"
    by blast
  from detect_template_lookup [of blank_page] none
  have 3: "try_template (domain blank_page) = None \<and> detect blank_page = heuristic_detection blank_page"
    by blast
  from dm m1 f10 1 2 3 show ?thesis
    by (simp only: simp_thms)
qed

subsection \<open>Heuristic detection\<close>

lemma detect_container_nonempty:
  assumes "detect_container p = Inr c"
  shows "c \<noteq> []"
  using detect_container_cases [OF assms]
proof
  assume "c = container_fallback"
  then show ?thesis
    by (simp add: container_fallback_def)
next
  assume "c \<in> set (semantic_tags @ common_classes) \<and> (\<exists>n. probe p c = Inr n \<and> in_band n)"
  then have "c \<in> set (semantic_tags @ common_classes)"
    by (rule conjunct1)
  then show ?thesis
    by (auto simp: semantic_tags_def common_classes_def)
qed

lemma heuristic_detection_fields:
  assumes "heuristic_detection p = Inr s"
  shows "\<exists>c. detect_container p = Inr c \<and> map_of s ''container'' = Some c
           \<and> map_of s ''link'' = Some ''a[href]''"
  using assms
  by (auto simp: heuristic_detection_def Let_def update_conv' initial_selectors_def
      split: sum.splits)

lemma detect_title_returns:
  assumes "\<forall>c\<in>set headings. \<exists>n. probe p c = Inr n"
  shows "\<exists>t. detect_title p = Inr t"
  using scan_returns [OF assms, of positive]
  by (auto simp: detect_title_def split: option.splits)

lemma detect_container_returns:
  assumes "\<forall>c\<in>set semantic_tags. \<exists>n. probe p c = Inr n"
  shows "\<exists>t. detect_container p = Inr t"
  using scan_returns [OF assms, of in_band]
  by (auto simp: detect_container_def split: option.splits)

lemma heuristic_detection_returns:
  assumes "\<forall>c\<in>set semantic_tags \<union> set headings. \<exists>n. probe p c = Inr n"
  shows "\<exists>s. heuristic_detection p = Inr s"
proof -
  from assms obtain c where "detect_container p = Inr c"
    using detect_container_returns [of p] by auto
  moreover from assms obtain t where "detect_title p = Inr t"
    using detect_title_returns [of p] by auto
  ultimately show ?thesis
    by (simp add: heuristic_detection_def Let_def)
qed

text \<open>
  Claim C2. For a page whose domain matches no template, exactly or partially: every
  selector set that \<^verbatim>\<open>detect\<close> returns has a container selector and a link selector that
  are not empty; \<^verbatim>\<open>detect\<close> does return one whenever the probes of the semantic tags and of
  the headings return a count; and when no container candidate has a count in
  \<open>[3, 100]\<close>, the container is the fallback selector and the link is \<^verbatim>\<open>a[href]\<close>.
\<close>

theorem heuristic_selectors_never_empty:
  "try_template (domain p) = None \<longrightarrow>
     (\<forall>s. detect p = Inr s \<longrightarrow>
        (\<exists>c. map_of s ''container'' = Some c \<and> c \<noteq> [])
        \<and> (\<exists>l. map_of s ''link'' = Some l \<and> l \<noteq> []))
     \<and> ((\<forall>c\<in>set semantic_tags \<union> set headings. \<exists>n. probe p c = Inr n) \<longrightarrow>
          (\<exists>s. detect p = Inr s))
     \<and> ((\<forall>c\<in>set semantic_tags. \<exists>n. probe p c = Inr n \<and> \<not> (3 \<le> n \<and> n \<le> 100))
          \<and> (\<forall>c\<in>set common_classes. \<forall>n. probe p c = Inr n \<longrightarrow> \<not> (3 \<le> n \<and> n \<le> 100))
          \<and> (\<forall>c\<in>set headings. \<exists>n. probe p c = Inr n) \<longrightarrow>
          (\<exists>s. detect p = Inr s \<and> map_of s ''container'' = Some container_fallback
                \<and> map_of s ''link'' = Some ''a[href]''))"
proof (intro impI conjI allI)
  fix s
  assume none: "try_template (domain p) = None" and s: "detect p = Inr s"
  then have h: "heuristic_detection p = Inr s"
    by (simp add: detect_def)
  from heuristic_detection_fields [OF h] obtain c where c: "detect_container p = Inr c"
    and f: "map_of s ''container'' = Some c" "map_of s ''link'' = Some ''a[href]''"
    by blast
  from c have "c \<noteq> []"
    by (rule detect_container_nonempty)
  with f show "\<exists>c. map_of s ''container'' = Some c \<and> c \<noteq> []"
    by simp
  from f show "\<exists>l. map_of s ''link'' = Some l \<and> l \<noteq> []"
    by simp
next
  assume none: "try_template (domain p) = None"
    and "\<forall>c\<in>set semantic_tags \<union> set headings. \<exists>n. probe p c = Inr n"
  then show "\<exists>s. detect p = Inr s"
    using heuristic_detection_returns [of p] by (simp add: detect_def)
next
  assume none: "try_template (domain p) = None"
    and a: "(\<forall>c\<in>set semantic_tags. \<exists>n. probe p c = Inr n \<and> \<not> (3 \<le> n \<and> n \<le> 100))
          \<and> (\<forall>c\<in>set common_classes. \<forall>n. probe p c = Inr n \<longrightarrow> \<not> (3 \<le> n \<and> n \<le> 100))
          \<and> (\<forall>c\<in>set headings. \<exists>n. probe p c = Inr n)"
  then have fb: "detect_container p = Inr container_fallback"
    by (intro detect_container_fallback) (simp_all add: in_band_def)
  from a have "\<forall>c\<in>set semantic_tags \<union> set headings. \<exists>n. probe p c = Inr n"
    by blast
  then obtain s where h: "heuristic_detection p = Inr s"
    using heuristic_detection_returns [of p] by blast
  with heuristic_detection_fields [OF h] fb none
  show "\<exists>s. detect p = Inr s \<and> map_of s ''container'' = Some container_fallback
                \<and> map_of s ''link'' = Some ''a[href]''"
    by (auto simp: detect_def)
qed

text \<open>
  Claim C2, at a page on which every selector matches nothing: all five detected fields
  are the fallbacks.
\<close>

theorem heuristic_selectors_never_empty_witness:
  "try_template (domain blank_page) = None
   \<and> detect blank_page =
       Inr [(''container'', container_fallback),
            (''title'', ''h1, h2, h3, .title, .headline''),
            (''author'', detect_author blank_page),
            (''date'', ''time, .date, .published''),
            (''content'', ''.content, .description, .summary, p''),
            (''link'', ''a[href]'')]
   \<and> container_fallback \<noteq> []"
proof -
  have db: "domain blank_page = ''example.com''"
    by (simp add: domain_def blank_page_def extract_domain_def)
  have none: "try_template (domain blank_page) = None"
    unfolding db try_template_def try_template_in_None_iff by (rule no_key_in_example)
  have zero: "\<And>c. probe blank_page c = Inr 0"
    by (simp add: probe_def blank_page_def)
  have scans: "\<And>accept cs. \<not> accept 0 \<Longrightarrow> scan accept blank_page cs = Inr None"
    "\<And>accept cs. \<not> accept 0 \<Longrightarrow> scan_try accept blank_page cs = None"
    by (rule scan_none, simp add: zero) (rule scan_try_none, simp add: zero)
  have val: "heuristic_detection blank_page =
       Inr [(''container'', container_fallback),
            (''title'', ''h1, h2, h3, .title, .headline''),
            (''author'', detect_author blank_page),
            (''date'', ''time, .date, .published''),
            (''content'', ''.content, .description, .summary, p''),
            (''link'', ''a[href]'')]"
    by (simp add: heuristic_detection_def detect_container_def detect_title_def
        detect_date_def detect_content_def scans in_band_def positive_def initial_selectors_def)
  have counts: "\<forall>c\<in>set semantic_tags \<union> set headings. \<exists>n. probe blank_page c = Inr n"
    by (simp add: zero)
  from heuristic_selectors_never_empty [of blank_page] none counts
  obtain s where s: "detect blank_page = Inr s"
    and "\<exists>c. map_of s ''container'' = Some c \<and> c \<noteq> []"
    by blast
  with none val show ?thesis
    by (auto simp: detect_def)
qed

text \<open>
  Claim C6 against the code. The loops over \<^verbatim>\<open>semantic_tags\<close> and over \<^verbatim>\<open>headings\<close> have no
  \<^verbatim>\<open>try\<close>: on a page whose query for \<^verbatim>\<open>article\<close> raises, and on one whose query for \<^verbatim>\<open>h1\<close>
  raises, the exception leaves \<^verbatim>\<open>detect\<close> and no selector set is returned. The loop over
  \<^verbatim>\<open>common_classes\<close> does what the claim says: on the page whose query for \<^verbatim>\<open>.post\<close>
  raises, detection goes on to \<^verbatim>\<open>.item\<close>.
\<close>

theorem detect_aborts_on_unguarded_probe:
  "detect broken_page = Inl DriverError
   \<and> detect_container broken_page = Inl DriverError
   \<and> detect_title broken_title_page = Inl DriverError
   \<and> detect broken_title_page = Inl DriverError
   \<and> detect_container crowded_page = Inr ''.item''"
proof -
  have none: "try_template ''example.com'' = None"
    unfolding try_template_def try_template_in_None_iff by (rule no_key_in_example)
  have d: "domain broken_page = ''example.com''" "domain broken_title_page = ''example.com''"
    by (simp_all add: domain_def broken_page_def broken_title_page_def extract_domain_def)
  have c: "detect_container broken_page = Inl DriverError"
    by (simp add: detect_container_def semantic_tags_def probe_def broken_page_def)
  have t: "detect_title broken_title_page = Inl DriverError"
    by (simp add: detect_title_def headings_def probe_def broken_title_page_def)
  have c2: "\<exists>c. detect_container broken_title_page = Inr c"
    by (rule detect_container_returns) (simp add: semantic_tags_def probe_def broken_title_page_def)
  have i: "detect_container crowded_page = Inr ''.item''"
    by (simp add: detect_container_def semantic_tags_def common_classes_def probe_def
        crowded_page_def in_band_def)
  from c2 t have "heuristic_detection broken_title_page = Inl DriverError"
    by (auto simp: heuristic_detection_def Let_def)
  with none d c t i show ?thesis
    by (simp add: detect_def heuristic_detection_def)
qed

section \<open>The scraper: agent/scraper.py\<close>

subsection \<open>The records that are kept\<close>

lemma extract_loop_append:
  "extract_loop sels p (xs @ ys) = extract_loop sels p xs @ extract_loop sels p ys"
  by (induction xs) (auto split: sum.splits)

lemma extract_loop_kept:
  "\<forall>item\<in>set (extract_loop sels p cs).
      truthy (map_of item ''title'') \<or> truthy (map_of item ''link'')"
  by (induction cs) (auto split: sum.splits)

lemma truthy_iff: "truthy v \<longleftrightarrow> (\<exists>s. v = Some s \<and> s \<noteq> [])"
  by (cases v) (simp_all add: truthy_def)

text \<open>
  Claim C3. Whatever the selectors, the page and the limit, every record that
  \<^verbatim>\<open>extract_data\<close> returns has a title that is not empty or a link that is not empty.
\<close>

theorem extract_data_keeps_title_or_link:
  "\<forall>item\<in>set (extract_data sels p max_items).
      (\<exists>t. map_of item ''title'' = Some t \<and> t \<noteq> [])
      \<or> (\<exists>l. map_of item ''link'' = Some l \<and> l \<noteq> [])"
proof
  fix item
  assume "item \<in> set (extract_data sels p max_items)"
  then obtain cs where "item \<in> set (extract_loop sels p cs)"
    by (auto simp: extract_data_def Let_def split: sum.splits)
  with extract_loop_kept [of sels p cs]
  have "truthy (map_of item ''title'') \<or> truthy (map_of item ''link'')"
    by blast
  then show "(\<exists>t. map_of item ''title'' = Some t \<and> t \<noteq> [])
      \<or> (\<exists>l. map_of item ''link'' = Some l \<and> l \<noteq> [])"
    by (simp add: truthy_iff)
qed

lemmas scrape_simps =
  extract_data_def extract_item_data_def extract_text_def extract_date_def extract_link_def
  bind_err_def subscript_def driver_def SELECTORS_def truthy_def strip_def is_space_def
  text_element_def detached_element_def

lemma container_selector:
  "subscript SELECTORS ''container'' = Inr ''article, .post, .card, .item, .news-item''"
  by (simp add: subscript_def SELECTORS_def)

lemma listing_query:
  "query_selector_all (listing_page cs) ''article, .post, .card, .item, .news-item'' = Inr cs"
  by (simp add: listing_page_def)

lemma extract_data_listing:
  "extract_data SELECTORS (listing_page cs) None = extract_loop SELECTORS (listing_page cs) cs"
  by (simp add: extract_data_def bind_err_def driver_def container_selector listing_query)

lemma item_untitled:
  "extract_item_data SELECTORS p untitled =
     Inr [(''author'', ''Ann''), (''date'', ''2024''), (''content'', ''text'')]"
  by (simp add: scrape_simps untitled_def)

lemma item_titled: "extract_item_data SELECTORS p (titled t) = Inr [(''title'', strip t)]"
  by (simp add: extract_item_data_def extract_text_def extract_date_def extract_link_def
      bind_err_def subscript_def driver_def SELECTORS_def text_element_def titled_def)

lemma strip_letter [simp]:
  "strip ''A'' = ''A''" "strip ''B'' = ''B''" "strip ''C'' = ''C''"
  "strip ''Second'' = ''Second''"
  by (simp_all add: strip_def is_space_def)

text \<open>
  Claim C3, at a page of two containers: the first has an author, a date and a content
  but neither title nor link, and is left out; the second has a title and is returned.
\<close>

theorem extract_data_keeps_title_or_link_witness:
  "extract_item_data SELECTORS (listing_page [untitled, titled ''A'']) untitled =
     Inr [(''author'', ''Ann''), (''date'', ''2024''), (''content'', ''text'')]
   \<and> extract_data SELECTORS (listing_page [untitled, titled ''A'']) None = [[(''title'', ''A'')]]
   \<and> ((\<exists>t. map_of [(''title'', ''A'')] ''title'' = Some t \<and> t \<noteq> [])
        \<or> (\<exists>l. map_of [(''title'', ''A'')] ''link'' = Some l \<and> l \<noteq> []))"
proof -
  let ?p = "listing_page [untitled, titled ''A'']"
  have val: "extract_data SELECTORS ?p None = [[(''title'', ''A'')]]"
    by (simp add: extract_data_listing item_untitled item_titled truthy_def)
  from extract_data_keeps_title_or_link [of SELECTORS ?p None] val
  have "(\<exists>t. map_of [(''title'', ''A'')] ''title'' = Some t \<and> t \<noteq> [])
        \<or> (\<exists>l. map_of [(''title'', ''A'')] ''link'' = Some l \<and> l \<noteq> [])"
    by simp
  with val item_untitled show ?thesis
    by blast
qed

subsection \<open>A field that raises\<close>

lemma extract_loop_skip:
  assumes "extract_item_data sels p c = Inl e"
  shows "extract_loop sels p (pre @ c # post) = extract_loop sels p pre @ extract_loop sels p post"
  using assms by (simp add: extract_loop_append)

lemma title_half_broken:
  "extract_text SELECTORS half_broken ''title'' [] = Inr [(''title'', ''First'')]"
  by (simp add: scrape_simps half_broken_def)

lemma author_half_broken:
  "extract_text SELECTORS half_broken ''author'' [(''title'', ''First'')] = Inl (Raised DriverError)"
  by (simp add: scrape_simps half_broken_def)

lemma item_half_broken:
  "extract_item_data SELECTORS p half_broken = Inl (Raised DriverError)"
  by (simp add: extract_item_data_def bind_err_def title_half_broken author_half_broken)

text \<open>
  Claim C7 as stated fails at a page of two containers, the first of which has the title
  \<open>First\<close> and an author element whose text cannot be read. The title is extracted
  without an error, but the record with that title is not returned: only the record of
  the second container is.
\<close>

theorem extract_data_drops_partial_record:
  "extract_text SELECTORS half_broken ''title'' [] = Inr [(''title'', ''First'')]
   \<and> extract_text SELECTORS half_broken ''author'' [(''title'', ''First'')] = Inl (Raised DriverError)
   \<and> extract_item_data SELECTORS (listing_page [half_broken, titled ''Second'']) half_broken
       = Inl (Raised DriverError)
   \<and> extract_data SELECTORS (listing_page [half_broken, titled ''Second'']) None
       = [[(''title'', ''Second'')]]"
  by (simp add: extract_data_listing item_half_broken item_titled title_half_broken
      author_half_broken truthy_def)

text \<open>
  Claim C7, as amended. An exception raised while one field of a container is extracted
  leaves \<^verbatim>\<open>_extract_item_data\<close>, whichever of the five fields it is, so no record is
  returned for that container, not even one with the fields extracted before. The batch
  is not aborted: the records returned are those of the containers before it followed by
  those of the containers after it.
\<close>

theorem extract_data_skips_failed_container:
  "(extract_text sels c ''title'' [] = Inl e \<longrightarrow> extract_item_data sels p c = Inl e)
   \<and> (extract_text sels c ''title'' [] = Inr i1 \<and> extract_text sels c ''author'' i1 = Inl e
        \<longrightarrow> extract_item_data sels p c = Inl e)
   \<and> (extract_text sels c ''title'' [] = Inr i1 \<and> extract_text sels c ''author'' i1 = Inr i2
        \<and> extract_date sels c i2 = Inl e
        \<longrightarrow> extract_item_data sels p c = Inl e)
   \<and> (extract_text sels c ''title'' [] = Inr i1 \<and> extract_text sels c ''author'' i1 = Inr i2
        \<and> extract_date sels c i2 = Inr i3 \<and> extract_text sels c ''content'' i3 = Inl e
        \<longrightarrow> extract_item_data sels p c = Inl e)
   \<and> (extract_text sels c ''title'' [] = Inr i1 \<and> extract_text sels c ''author'' i1 = Inr i2
        \<and> extract_date sels c i2 = Inr i3 \<and> extract_text sels c ''content'' i3 = Inr i4
        \<and> extract_link sels p c i4 = Inl e
        \<longrightarrow> extract_item_data sels p c = Inl e)
   \<and> (extract_item_data sels p c = Inl e \<longrightarrow>
        extract_loop sels p (pre @ c # post) = extract_loop sels p pre @ extract_loop sels p post)
   \<and> (subscript sels ''container'' = Inr s \<and> query_selector_all p s = Inr (pre @ c # post)
        \<and> extract_item_data sels p c = Inl e \<longrightarrow>
        extract_data sels p None = extract_loop sels p pre @ extract_loop sels p post)"
proof (intro conjI impI)
  assume "extract_item_data sels p c = Inl e"
  then show "extract_loop sels p (pre @ c # post)
      = extract_loop sels p pre @ extract_loop sels p post"
    by (rule extract_loop_skip)
next
  assume a: "subscript sels ''container'' = Inr s \<and> query_selector_all p s = Inr (pre @ c # post)
        \<and> extract_item_data sels p c = Inl e"
  then have "extract_data sels p None = extract_loop sels p (pre @ c # post)"
    by (simp add: extract_data_def bind_err_def driver_def)
  with a show "extract_data sels p None = extract_loop sels p pre @ extract_loop sels p post"
    by (simp add: extract_loop_skip)
qed (simp_all add: extract_item_data_def bind_err_def)

text \<open>
  Claim C7, as amended, at a page of three containers, the second of which has a title
  and an author element whose text cannot be read: the records of the first and of the
  third container are returned, and nothing for the second.
\<close>

theorem extract_data_skips_failed_container_witness:
  "extract_text SELECTORS half_broken ''title'' [] = Inr [(''title'', ''First'')]
   \<and> extract_text SELECTORS half_broken ''author'' [(''title'', ''First'')] = Inl (Raised DriverError)
   \<and> extract_item_data SELECTORS (listing_page [titled ''A'', half_broken, titled ''B'']) half_broken
       = Inl (Raised DriverError)
   \<and> extract_data SELECTORS (listing_page [titled ''A'', half_broken, titled ''B'']) None
       = [[(''title'', ''A'')], [(''title'', ''B'')]]"
proof -
  let ?p = "listing_page [titled ''A'', half_broken, titled ''B'']"
  note step = extract_data_skips_failed_container
    [of SELECTORS half_broken "Raised DriverError" ?p "[(''title'', ''First'')]" _ _ _
      "[titled ''A'']" "[titled ''B'']" "''article, .post, .card, .item, .news-item''"]
  from step title_half_broken author_half_broken
  have item: "extract_item_data SELECTORS ?p half_broken = Inl (Raised DriverError)"
    by blast
  have "query_selector_all ?p ''article, .post, .card, .item, .news-item''
      = Inr ([titled ''A''] @ half_broken # [titled ''B''])"
    by (simp add: listing_query)
  with step container_selector item
  have "extract_data SELECTORS ?p None
      = extract_loop SELECTORS ?p [titled ''A''] @ extract_loop SELECTORS ?p [titled ''B'']"
    by blast
  then have "extract_data SELECTORS ?p None = [[(''title'', ''A'')], [(''title'', ''B'')]]"
    by (simp add: item_titled truthy_def)
  with item title_half_broken author_half_broken show ?thesis
    by (simp only: simp_thms)
qed

subsection \<open>The limit on the containers\<close>

lemma extract_data_positive:
  assumes "subscript sels ''container'' = Inr s" and "query_selector_all p s = Inr cs"
    and "0 < n"
  shows "extract_data sels p (Some n) = extract_loop sels p (take (nat n) cs)"
  using assms by (simp add: extract_data_def bind_err_def driver_def slice_to_def)

text \<open>
  Claim C8 against the code, at a page of three containers. With \<^verbatim>\<open>max_items = 2\<close> the
  records of the first two are returned. With \<^verbatim>\<open>max_items = 0\<close> the test \<^verbatim>\<open>if max_items:\<close>
  fails and all three containers are processed, as without a limit. A negative limit
  cuts from the end: \<^verbatim>\<open>max_items = -1\<close> leaves out the last container.
\<close>

theorem extract_data_zero_is_unlimited:
  "extract_data SELECTORS (listing_page [titled ''A'', titled ''B'', titled ''C'']) (Some 2)
     = [[(''title'', ''A'')], [(''title'', ''B'')]]
   \<and> extract_data SELECTORS (listing_page [titled ''A'', titled ''B'', titled ''C'']) (Some 0)
     = [[(''title'', ''A'')], [(''title'', ''B'')], [(''title'', ''C'')]]
   \<and> extract_data SELECTORS (listing_page [titled ''A'', titled ''B'', titled ''C'']) None
     = [[(''title'', ''A'')], [(''title'', ''B'')], [(''title'', ''C'')]]
   \<and> extract_data SELECTORS (listing_page [titled ''A'', titled ''B'', titled ''C'']) (Some (- 1))
     = [[(''title'', ''A'')], [(''title'', ''B'')]]"
  by (simp add: extract_data_def bind_err_def driver_def container_selector listing_query
      slice_to_def item_titled truthy_def)

end
